theory Spec2Isabelle
  imports Main
begin

section \<open>JavaScript values\<close>

text \<open>
  The script handles only plain data: what \<open>JSON.parse\<close> yields, what its own object
  literals build, and \<open>undefined\<close>. An object is the list of its own enumerable data
  properties in the order JavaScript enumerates them; its prototype is the built-in one.
  \<open>JNum\<close> holds the integer-valued numbers (identifiers, counts, status codes); fractional
  numbers are outside this model. The numbers the model renders as JavaScript does are the
  safe integers, those of absolute value at most \<open>2^53 - 1\<close>: beyond them JavaScript
  writes a number with the shortest digits that identify it, and from \<open>10^21\<close> in exponent
  form, which \<open>show_int\<close> does not. A statement about the text of a URL or of a body is
  therefore made for values whose numbers are safe (\<open>safe_numbers\<close>).
\<close>

datatype js =
    JUndefined
  | JNull
  | JBool bool
  | JNum int
  | JStr string
  | JArr "js list"
  | JObj "(string \<times> js) list"

text \<open>
  Values a \<open>throw\<close> or a rejected promise carries: \<open>Error msg\<close> is \<open>new Error(msg)\<close>
  as the script builds it, \<open>TypeError\<close> is raised by the language itself (reading a property
  of \<open>null\<close>, calling what is not a function, converting an object that has no usable
  \<open>toString\<close>), and \<open>Rejection d\<close> is whatever \<open>fetch\<close> or \<open>response.json()\<close>
  rejects with, named by a description.
\<close>

datatype error = Error string | TypeError | Rejection string

subsection \<open>Decimal rendering of numbers\<close>

definition digit_char :: "nat \<Rightarrow> char" where
  "digit_char d = ''0123456789'' ! d"

function show_nat :: "nat \<Rightarrow> string" where
  "show_nat n = (if n < 10 then [digit_char n] else show_nat (n div 10) @ [digit_char (n mod 10)])"
  by pat_completeness auto
termination
  by (relation "measure id") auto

declare show_nat.simps [simp del]

definition show_int :: "int \<Rightarrow> string" where
  "show_int i = (if i < 0 then ''-'' @ show_nat (nat (- i)) else show_nat (nat i))"

text \<open>
  \<open>Number.MAX_SAFE_INTEGER\<close> is \<open>2^53 - 1\<close>. Up to it, in both directions, JavaScript
  writes an integer with all its decimal digits, as \<open>show_int\<close> does.
\<close>

definition safe_integer :: "int \<Rightarrow> bool" where
  "safe_integer n = (- 9007199254740991 \<le> n \<and> n \<le> 9007199254740991)"

text \<open>A value all of whose numbers, at any depth, are safe integers.\<close>

fun safe_numbers :: "js \<Rightarrow> bool" where
  "safe_numbers (JNum n) = safe_integer n"
| "safe_numbers (JArr xs) = (\<forall>x \<in> set xs. safe_numbers x)"
| "safe_numbers (JObj ps) = (\<forall>p \<in> set ps. safe_numbers (snd p))"
| "safe_numbers v = True"

subsection \<open>Property names that are array indices\<close>

text \<open>
  A property name is an array index when it is the decimal rendering of an integer below
  \<open>2^32 - 1\<close>. JavaScript enumerates such names first, in ascending order, and the other
  names after them in the order of their creation.
\<close>

definition is_digit :: "char \<Rightarrow> bool" where
  "is_digit c = (c \<in> set ''0123456789'')"

definition digit_value :: "char \<Rightarrow> nat" where
  "digit_value c = of_char c - 48"

definition digits_value :: "string \<Rightarrow> nat" where
  "digits_value k = foldl (\<lambda>acc c. 10 * acc + digit_value c) 0 k"

definition array_index :: "string \<Rightarrow> nat option" where
  "array_index k =
     (if k \<noteq> [] \<and> list_all is_digit k \<and> (k = ''0'' \<or> hd k \<noteq> CHR ''0'')
         \<and> digits_value k < 4294967295
      then Some (digits_value k) else None)"

subsection \<open>Reading a property\<close>

text \<open>
  \<open>v.k\<close> and \<open>v[k]\<close>. Reading from \<open>undefined\<close> or \<open>null\<close> throws. The names the
  script reads (\<open>headers\<close>, \<open>length\<close>, \<open>title\<close>, \<open>id\<close>, \<open>name\<close>, \<open>email\<close>,
  \<open>completed\<close>, \<open>body\<close>, \<open>0\<close>) are on no built-in prototype of these values, so a
  name that is not an own property reads as \<open>undefined\<close>.
\<close>

fun get_member :: "js \<Rightarrow> string \<Rightarrow> error + js" where
  "get_member JUndefined k = Inl TypeError"
| "get_member JNull k = Inl TypeError"
| "get_member (JBool b) k = Inr JUndefined"
| "get_member (JNum n) k = Inr JUndefined"
| "get_member (JStr s) k =
     Inr (if k = ''length'' then JNum (int (length s))
          else case array_index k of
                 Some i \<Rightarrow> if i < length s then JStr [s ! i] else JUndefined
               | None \<Rightarrow> JUndefined)"
| "get_member (JArr xs) k =
     Inr (if k = ''length'' then JNum (int (length xs))
          else case array_index k of
                 Some i \<Rightarrow> if i < length xs then xs ! i else JUndefined
               | None \<Rightarrow> JUndefined)"
| "get_member (JObj ps) k = Inr (case map_of ps k of Some v \<Rightarrow> v | None \<Rightarrow> JUndefined)"

subsection \<open>Object literals with spread\<close>

text \<open>
  \<open>set_prop ps k v\<close> defines property \<open>k\<close> on the object under construction: an existing
  property keeps its place and takes the new value, a new array index goes to its place among
  the indices, any other new name goes last.
\<close>

fun put_index :: "nat \<Rightarrow> string \<Rightarrow> js \<Rightarrow> (string \<times> js) list \<Rightarrow> (string \<times> js) list" where
  "put_index n k v [] = [(k, v)]"
| "put_index n k v (p # ps) =
     (case array_index (fst p) of
        Some m \<Rightarrow> if m < n then p # put_index n k v ps else (k, v) # p # ps
      | None \<Rightarrow> (k, v) # p # ps)"

definition set_prop :: "(string \<times> js) list \<Rightarrow> string \<Rightarrow> js \<Rightarrow> (string \<times> js) list" where
  "set_prop ps k v =
     (if k \<in> fst ` set ps then map (\<lambda>p. if fst p = k then (k, v) else p) ps
      else case array_index k of
             Some n \<Rightarrow> put_index n k v ps
           | None \<Rightarrow> ps @ [(k, v)])"

text \<open>
  The own enumerable properties \<open>...src\<close> copies: those of an object, the elements of an
  array and the characters of a string under their indices, nothing for \<open>undefined\<close>,
  \<open>null\<close>, a boolean or a number.
\<close>

fun own_props :: "js \<Rightarrow> (string \<times> js) list" where
  "own_props (JObj ps) = ps"
| "own_props (JArr xs) = map (\<lambda>i. (show_nat i, xs ! i)) [0..<length xs]"
| "own_props (JStr s) = map (\<lambda>i. (show_nat i, JStr [s ! i])) [0..<length s]"
| "own_props v = []"

definition spread :: "(string \<times> js) list \<Rightarrow> js \<Rightarrow> (string \<times> js) list" where
  "spread ps src = foldl (\<lambda>acc p. set_prop acc (fst p) (snd p)) ps (own_props src)"

subsection \<open>Template literals: conversion to string\<close>

text \<open>
  \<open>`${v}`\<close> converts \<open>v\<close> to a string. An array is joined with commas, \<open>undefined\<close> and
  \<open>null\<close> elements giving the empty string. A plain object gives \<open>[object Object]\<close>,
  unless it has an own property \<open>toString\<close>: that property holds data, not a function, and
  the conversion throws. The text of a number is JavaScript's for a safe integer.
\<close>

fun join_parts :: "(error + string) list \<Rightarrow> error + string" where
  "join_parts [] = Inr []"
| "join_parts [p] = p"
| "join_parts (p # q # ps) =
     (case p of
        Inl e \<Rightarrow> Inl e
      | Inr s \<Rightarrow> (case join_parts (q # ps) of Inl e \<Rightarrow> Inl e | Inr t \<Rightarrow> Inr (s @ '','' @ t)))"

fun to_string :: "js \<Rightarrow> error + string" where
  "to_string JUndefined = Inr ''undefined''"
| "to_string JNull = Inr ''null''"
| "to_string (JBool b) = Inr (if b then ''true'' else ''false'')"
| "to_string (JNum n) = Inr (show_int n)"
| "to_string (JStr s) = Inr s"
| "to_string (JArr xs) =
     join_parts (map (\<lambda>x. if x = JUndefined \<or> x = JNull then Inr [] else to_string x) xs)"
| "to_string (JObj ps) =
     (if ''toString'' \<in> fst ` set ps then Inl TypeError else Inr ''[object Object]'')"

subsection \<open>JSON.stringify\<close>

definition hex_digit :: "nat \<Rightarrow> char" where
  "hex_digit d = ''0123456789abcdef'' ! d"

definition json_escape :: "char \<Rightarrow> string" where
  "json_escape c =
     (if c = CHR 0x08 then [CHR 0x5C, CHR ''b'']
      else if c = CHR 0x09 then [CHR 0x5C, CHR ''t'']
      else if c = CHR 0x0A then [CHR 0x5C, CHR ''n'']
      else if c = CHR 0x0C then [CHR 0x5C, CHR ''f'']
      else if c = CHR 0x0D then [CHR 0x5C, CHR ''r'']
      else if c = CHR 0x22 then [CHR 0x5C, CHR 0x22]
      else if c = CHR 0x5C then [CHR 0x5C, CHR 0x5C]
      else if (of_char c :: nat) < 32
        then [CHR 0x5C, CHR ''u'', CHR ''0'', CHR ''0'',
              hex_digit (of_char c div 16), hex_digit (of_char c mod 16)]
      else [c])"

definition json_quote :: "string \<Rightarrow> string" where
  "json_quote s = [CHR 0x22] @ concat (map json_escape s) @ [CHR 0x22]"

fun join_commas :: "string list \<Rightarrow> string" where
  "join_commas [] = []"
| "join_commas [s] = s"
| "join_commas (s # t # ss) = s @ '','' @ join_commas (t # ss)"

text \<open>
  \<open>serialize v\<close> is \<open>None\<close> where \<open>JSON.stringify\<close> yields \<open>undefined\<close>. A property whose
  value is \<open>undefined\<close> is left out of an object; an \<open>undefined\<close> element of an array is
  written \<open>null\<close>. The text of a number is JavaScript's for a safe integer.
\<close>

fun serialize :: "js \<Rightarrow> string option" where
  "serialize JUndefined = None"
| "serialize JNull = Some ''null''"
| "serialize (JBool b) = Some (if b then ''true'' else ''false'')"
| "serialize (JNum n) = Some (show_int n)"
| "serialize (JStr s) = Some (json_quote s)"
| "serialize (JArr xs) =
     Some (''['' @ join_commas (map (\<lambda>x. case serialize x of None \<Rightarrow> ''null'' | Some t \<Rightarrow> t) xs)
           @ '']'')"
| "serialize (JObj ps) =
     Some (''{'' @ join_commas (concat (map (\<lambda>(k, v). case serialize v of
                                                    None \<Rightarrow> []
                                                  | Some t \<Rightarrow> [json_quote k @ '':'' @ t]) ps))
           @ ''}'')"

definition JSON_stringify :: "js \<Rightarrow> js" where
  "JSON_stringify v = (case serialize v of None \<Rightarrow> JUndefined | Some t \<Rightarrow> JStr t)"

section \<open>Effects\<close>

text \<open>
  What the script does to the outside is a list of events, oldest first: a call of
  \<open>fetch\<close> with its URL and its init object, a call of \<open>response.json()\<close>, a line on
  \<open>console.log\<close>, a line on \<open>console.error\<close> with the value logged after its label.
  A \<open>console.log\<close> event records which message was printed, as the text of its template
  without the pictograph in it and the blank after that; the interpolated expressions are
  evaluated in the model, since evaluating them can throw. The label of a \<open>console.error\<close>
  line is written the same way.
\<close>

datatype event =
    Fetch string js
  | ResponseJson
  | ConsoleLog string
  | ConsoleError string error

fun fetches :: "event list \<Rightarrow> (string \<times> js) list" where
  "fetches [] = []"
| "fetches (Fetch url init # es) = (url, init) # fetches es"
| "fetches (e # es) = fetches es"

text \<open>
  The remote service is not part of the script. A response has a status code and the
  result \<open>response.json()\<close> settles to; the promise \<open>fetch\<close> returns is rejected or is
  fulfilled with a response. The world answers the \<open>n\<close>th call of \<open>fetch\<close> from its number,
  its URL and its init object. Every promise of the platform is taken to settle: a request
  that is never answered, which would leave the caller waiting for ever, is not modelled.
\<close>

record response =
  status :: nat
  json_result :: "error + js"

datatype outcome = Rejects error | Responds response

type_synonym world = "nat \<Rightarrow> string \<Rightarrow> js \<Rightarrow> outcome"

text \<open>\<open>response.ok\<close> of the Fetch standard: the status is in the range 200 to 299.\<close>

definition response_ok :: "response \<Rightarrow> bool" where
  "response_ok r = (200 \<le> status r \<and> status r \<le> 299)"

text \<open>
  The method of a request: the \<open>method\<close> of the init object, which the wrappers give as
  a string or not at all, and \<open>GET\<close> when it has none.
\<close>

definition request_method :: "js \<Rightarrow> string" where
  "request_method init =
     (case get_member init ''method'' of Inr (JStr m) \<Rightarrow> m | _ \<Rightarrow> ''GET'')"

text \<open>
  An \<open>async\<close> function is a function of the events so far that returns the events after
  it, with \<open>Inr v\<close> when its promise is fulfilled with \<open>v\<close> and \<open>Inl e\<close> when it is
  rejected with \<open>e\<close>. \<open>bindM\<close> is \<open>await\<close> followed by the rest of the body.
\<close>

type_synonym 'a io = "event list \<Rightarrow> (error + 'a) \<times> event list"

definition returnM :: "'a \<Rightarrow> 'a io" where
  "returnM x s = (Inr x, s)"

definition throwM :: "error \<Rightarrow> 'a io" where
  "throwM e s = (Inl e, s)"

definition lift :: "error + 'a \<Rightarrow> 'a io" where
  "lift r s = (r, s)"

definition bindM :: "'a io \<Rightarrow> ('a \<Rightarrow> 'b io) \<Rightarrow> 'b io" where
  "bindM m f s = (case m s of (Inl e, s') \<Rightarrow> (Inl e, s') | (Inr x, s') \<Rightarrow> f x s')"

definition try_catch :: "'a io \<Rightarrow> (error \<Rightarrow> 'a io) \<Rightarrow> 'a io" where
  "try_catch m h s = (case m s of (Inl e, s') \<Rightarrow> h e s' | (Inr x, s') \<Rightarrow> (Inr x, s'))"

definition console_log :: "string \<Rightarrow> js io" where
  "console_log msg s = (Inr JUndefined, s @ [ConsoleLog msg])"

definition console_error :: "string \<Rightarrow> error \<Rightarrow> js io" where
  "console_error label e s = (Inr JUndefined, s @ [ConsoleError label e])"

definition fetch :: "world \<Rightarrow> string \<Rightarrow> js \<Rightarrow> response io" where
  "fetch w url init s =
     (case w (length (fetches s)) url init of
        Rejects e \<Rightarrow> (Inl e, s @ [Fetch url init])
      | Responds r \<Rightarrow> (Inr r, s @ [Fetch url init]))"

definition response_json :: "response \<Rightarrow> js io" where
  "response_json r s = (json_result r, s @ [ResponseJson])"

definition member :: "js \<Rightarrow> string \<Rightarrow> js io" where
  "member v k = lift (get_member v k)"

definition interp :: "js \<Rightarrow> string io" where
  "interp v = lift (to_string v)"

section \<open>The request helper\<close>

definition API_BASE_URL :: string where
  "API_BASE_URL = ''https://jsonplaceholder.typicode.com''"

text \<open>
  \<open>makeRequest(url, options = {})\<close>. The init object is the literal
  \<open>{ headers: { 'Content-Type': 'application/json', ...options.headers }, ...options }\<close>,
  built inside the \<open>try\<close>.
\<close>

definition fetch_init :: "js \<Rightarrow> js \<Rightarrow> js" where
  "fetch_init options h =
     JObj (spread [(''headers'',
                    JObj (spread [(''Content-Type'', JStr ''application/json'')] h))]
             options)"

definition makeRequest :: "world \<Rightarrow> string \<Rightarrow> js \<Rightarrow> js io" where
  "makeRequest w url arg =
     (let options = (if arg = JUndefined then JObj [] else arg) in
      try_catch
        (bindM (member options ''headers'') (\<lambda>h.
         bindM (fetch w url (fetch_init options h)) (\<lambda>response.
           if \<not> response_ok response
             then throwM (Error (''HTTP error! status: '' @ show_nat (status response)))
           else if status response = 204
             then returnM (JObj [(''success'', JBool True)])
           else response_json response)))
        (\<lambda>error.
         bindM (console_error ''API Request failed:'' error) (\<lambda>_. throwM error)))"

section \<open>The endpoint wrappers\<close>

text \<open>
  Each wrapper prints a line, awaits \<open>makeRequest\<close> on a URL built by a template literal,
  prints a second line, and returns what the helper returned. The wrappers that take an
  identifier interpolate it as it is; the parameter \<open>id\<close> is written \<open>id'\<close> here.
\<close>

subsection \<open>Posts\<close>

definition getAllPosts :: "world \<Rightarrow> js io" where
  "getAllPosts w =
     bindM (console_log ''Fetching all posts...'') (\<lambda>_.
     bindM (makeRequest w (API_BASE_URL @ ''/posts'') JUndefined) (\<lambda>posts.
     bindM (member posts ''length'') (\<lambda>n.
     bindM (interp n) (\<lambda>_.
     bindM (console_log ''Retrieved ${posts.length} posts'') (\<lambda>_.
     returnM posts)))))"

definition getPost :: "world \<Rightarrow> js \<Rightarrow> js io" where
  \<open>getPost w id' =
     bindM (interp id') (\<lambda>_.
     bindM (console_log ''Fetching post ${id}...'') (\<lambda>_.
     bindM (interp id') (\<lambda>sid.
     bindM (makeRequest w (API_BASE_URL @ ''/posts/'' @ sid) JUndefined) (\<lambda>post.
     bindM (member post ''title'') (\<lambda>title.
     bindM (interp title) (\<lambda>_.
     bindM (console_log ''Retrieved post: "${post.title}"'') (\<lambda>_.
     returnM post)))))))\<close>

definition getPostsByUser :: "world \<Rightarrow> js \<Rightarrow> js io" where
  "getPostsByUser w userId =
     bindM (interp userId) (\<lambda>_.
     bindM (console_log ''Fetching posts by user ${userId}...'') (\<lambda>_.
     bindM (interp userId) (\<lambda>suid.
     bindM (makeRequest w (API_BASE_URL @ ''/posts?userId='' @ suid) JUndefined) (\<lambda>posts.
     bindM (member posts ''length'') (\<lambda>n.
     bindM (interp n) (\<lambda>_.
     bindM (interp userId) (\<lambda>_.
     bindM (console_log ''Found ${posts.length} posts by user ${userId}'') (\<lambda>_.
     returnM posts))))))))"

definition createPost :: "world \<Rightarrow> js \<Rightarrow> js io" where
  "createPost w postData =
     bindM (console_log ''Creating new post...'') (\<lambda>_.
     bindM (makeRequest w (API_BASE_URL @ ''/posts'')
              (JObj [(''method'', JStr ''POST''), (''body'', JSON_stringify postData)])) (\<lambda>newPost.
     bindM (member newPost ''id'') (\<lambda>newId.
     bindM (interp newId) (\<lambda>_.
     bindM (console_log ''Created post with ID: ${newPost.id}'') (\<lambda>_.
     returnM newPost)))))"

definition updatePost :: "world \<Rightarrow> js \<Rightarrow> js \<Rightarrow> js io" where
  "updatePost w id' postData =
     bindM (interp id') (\<lambda>_.
     bindM (console_log ''Updating post ${id}...'') (\<lambda>_.
     bindM (interp id') (\<lambda>sid.
     bindM (makeRequest w (API_BASE_URL @ ''/posts/'' @ sid)
              (JObj [(''method'', JStr ''PUT''),
                     (''body'', JSON_stringify (JObj (spread [(''id'', id')] postData)))])) (\<lambda>updatedPost.
     bindM (interp id') (\<lambda>_.
     bindM (console_log ''Updated post ${id}'') (\<lambda>_.
     returnM updatedPost))))))"

definition patchPost :: "world \<Rightarrow> js \<Rightarrow> js \<Rightarrow> js io" where
  "patchPost w id' partialData =
     bindM (interp id') (\<lambda>_.
     bindM (console_log ''Patching post ${id}...'') (\<lambda>_.
     bindM (interp id') (\<lambda>sid.
     bindM (makeRequest w (API_BASE_URL @ ''/posts/'' @ sid)
              (JObj [(''method'', JStr ''PATCH''), (''body'', JSON_stringify partialData)])) (\<lambda>patchedPost.
     bindM (interp id') (\<lambda>_.
     bindM (console_log ''Patched post ${id}'') (\<lambda>_.
     returnM patchedPost))))))"

definition deletePost :: "world \<Rightarrow> js \<Rightarrow> js io" where
  "deletePost w id' =
     bindM (interp id') (\<lambda>_.
     bindM (console_log ''Deleting post ${id}...'') (\<lambda>_.
     bindM (interp id') (\<lambda>sid.
     bindM (makeRequest w (API_BASE_URL @ ''/posts/'' @ sid)
              (JObj [(''method'', JStr ''DELETE'')])) (\<lambda>result.
     bindM (interp id') (\<lambda>_.
     bindM (console_log ''Deleted post ${id}'') (\<lambda>_.
     returnM result))))))"

subsection \<open>Comments\<close>

definition getAllComments :: "world \<Rightarrow> js io" where
  "getAllComments w =
     bindM (console_log ''Fetching all comments...'') (\<lambda>_.
     bindM (makeRequest w (API_BASE_URL @ ''/comments'') JUndefined) (\<lambda>comments.
     bindM (member comments ''length'') (\<lambda>n.
     bindM (interp n) (\<lambda>_.
     bindM (console_log ''Retrieved ${comments.length} comments'') (\<lambda>_.
     returnM comments)))))"

definition getCommentsForPost :: "world \<Rightarrow> js \<Rightarrow> js io" where
  "getCommentsForPost w postId =
     bindM (interp postId) (\<lambda>_.
     bindM (console_log ''Fetching comments for post ${postId}...'') (\<lambda>_.
     bindM (interp postId) (\<lambda>spid.
     bindM (makeRequest w (API_BASE_URL @ ''/posts/'' @ spid @ ''/comments'') JUndefined) (\<lambda>comments1.
     bindM (member comments1 ''length'') (\<lambda>n.
     bindM (interp n) (\<lambda>_.
     bindM (interp postId) (\<lambda>_.
     bindM (console_log ''Found ${comments1.length} comments for post ${postId}'') (\<lambda>_.
     returnM comments1))))))))"

subsection \<open>Users\<close>

definition getAllUsers :: "world \<Rightarrow> js io" where
  "getAllUsers w =
     bindM (console_log ''Fetching all users...'') (\<lambda>_.
     bindM (makeRequest w (API_BASE_URL @ ''/users'') JUndefined) (\<lambda>users.
     bindM (member users ''length'') (\<lambda>n.
     bindM (interp n) (\<lambda>_.
     bindM (console_log ''Retrieved ${users.length} users'') (\<lambda>_.
     returnM users)))))"

definition getUser :: "world \<Rightarrow> js \<Rightarrow> js io" where
  "getUser w id' =
     bindM (interp id') (\<lambda>_.
     bindM (console_log ''Fetching user ${id}...'') (\<lambda>_.
     bindM (interp id') (\<lambda>sid.
     bindM (makeRequest w (API_BASE_URL @ ''/users/'' @ sid) JUndefined) (\<lambda>user.
     bindM (member user ''name'') (\<lambda>name.
     bindM (interp name) (\<lambda>_.
     bindM (member user ''email'') (\<lambda>email.
     bindM (interp email) (\<lambda>_.
     bindM (console_log ''Retrieved user: ${user.name} (${user.email})'') (\<lambda>_.
     returnM user)))))))))"

definition getUserAlbums :: "world \<Rightarrow> js \<Rightarrow> js io" where
  "getUserAlbums w userId =
     bindM (interp userId) (\<lambda>_.
     bindM (console_log ''Fetching albums for user ${userId}...'') (\<lambda>_.
     bindM (interp userId) (\<lambda>suid.
     bindM (makeRequest w (API_BASE_URL @ ''/users/'' @ suid @ ''/albums'') JUndefined) (\<lambda>albums.
     bindM (member albums ''length'') (\<lambda>n.
     bindM (interp n) (\<lambda>_.
     bindM (interp userId) (\<lambda>_.
     bindM (console_log ''Found ${albums.length} albums for user ${userId}'') (\<lambda>_.
     returnM albums))))))))"

definition getUserTodos :: "world \<Rightarrow> js \<Rightarrow> js io" where
  "getUserTodos w userId =
     bindM (interp userId) (\<lambda>_.
     bindM (console_log ''Fetching todos for user ${userId}...'') (\<lambda>_.
     bindM (interp userId) (\<lambda>suid.
     bindM (makeRequest w (API_BASE_URL @ ''/users/'' @ suid @ ''/todos'') JUndefined) (\<lambda>todos.
     bindM (member todos ''length'') (\<lambda>n.
     bindM (interp n) (\<lambda>_.
     bindM (interp userId) (\<lambda>_.
     bindM (console_log ''Found ${todos.length} todos for user ${userId}'') (\<lambda>_.
     returnM todos))))))))"

subsection \<open>Albums and photos\<close>

definition getAllAlbums :: "world \<Rightarrow> js io" where
  "getAllAlbums w =
     bindM (console_log ''Fetching all albums...'') (\<lambda>_.
     bindM (makeRequest w (API_BASE_URL @ ''/albums'') JUndefined) (\<lambda>albums.
     bindM (member albums ''length'') (\<lambda>n.
     bindM (interp n) (\<lambda>_.
     bindM (console_log ''Retrieved ${albums.length} albums'') (\<lambda>_.
     returnM albums)))))"

definition getAlbumPhotos :: "world \<Rightarrow> js \<Rightarrow> js io" where
  "getAlbumPhotos w albumId =
     bindM (interp albumId) (\<lambda>_.
     bindM (console_log ''Fetching photos from album ${albumId}...'') (\<lambda>_.
     bindM (interp albumId) (\<lambda>said.
     bindM (makeRequest w (API_BASE_URL @ ''/albums/'' @ said @ ''/photos'') JUndefined) (\<lambda>photos.
     bindM (member photos ''length'') (\<lambda>n.
     bindM (interp n) (\<lambda>_.
     bindM (interp albumId) (\<lambda>_.
     bindM (console_log ''Found ${photos.length} photos in album ${albumId}'') (\<lambda>_.
     returnM photos))))))))"

definition getAllPhotos :: "world \<Rightarrow> js io" where
  "getAllPhotos w =
     bindM (console_log ''Fetching all photos...'') (\<lambda>_.
     bindM (makeRequest w (API_BASE_URL @ ''/photos'') JUndefined) (\<lambda>photos.
     bindM (member photos ''length'') (\<lambda>n.
     bindM (interp n) (\<lambda>_.
     bindM (console_log ''Retrieved ${photos.length} photos'') (\<lambda>_.
     returnM photos)))))"

subsection \<open>Todos\<close>

definition getAllTodos :: "world \<Rightarrow> js io" where
  "getAllTodos w =
     bindM (console_log ''Fetching all todos...'') (\<lambda>_.
     bindM (makeRequest w (API_BASE_URL @ ''/todos'') JUndefined) (\<lambda>todos.
     bindM (member todos ''length'') (\<lambda>n.
     bindM (interp n) (\<lambda>_.
     bindM (console_log ''Retrieved ${todos.length} todos'') (\<lambda>_.
     returnM todos)))))"

text \<open>
  \<open>todos.filter(todo => todo.completed)\<close>: only an array has \<open>filter\<close>; the callback reads
  \<open>completed\<close> of each element in turn, which throws on \<open>null\<close>, and an element stays when
  the value read is truthy.
\<close>

fun truthy :: "js \<Rightarrow> bool" where
  "truthy JUndefined = False"
| "truthy JNull = False"
| "truthy (JBool b) = b"
| "truthy (JNum n) = (n \<noteq> 0)"
| "truthy (JStr s) = (s \<noteq> [])"
| "truthy (JArr xs) = True"
| "truthy (JObj ps) = True"

fun filter_completed :: "js list \<Rightarrow> error + js list" where
  "filter_completed [] = Inr []"
| "filter_completed (todo # rest) =
     (case get_member todo ''completed'' of
        Inl e \<Rightarrow> Inl e
      | Inr c \<Rightarrow> (case filter_completed rest of
                   Inl e \<Rightarrow> Inl e
                 | Inr kept \<Rightarrow> Inr (if truthy c then todo # kept else kept)))"

fun todos_filter :: "js \<Rightarrow> error + js" where
  "todos_filter (JArr xs) =
     (case filter_completed xs of Inl e \<Rightarrow> Inl e | Inr kept \<Rightarrow> Inr (JArr kept))"
| "todos_filter v = Inl TypeError"

definition getCompletedTodos :: "world \<Rightarrow> js io" where
  "getCompletedTodos w =
     bindM (console_log ''Fetching completed todos...'') (\<lambda>_.
     bindM (makeRequest w (API_BASE_URL @ ''/todos'') JUndefined) (\<lambda>todos.
     bindM (lift (todos_filter todos)) (\<lambda>completed.
     bindM (member completed ''length'') (\<lambda>n.
     bindM (interp n) (\<lambda>_.
     bindM (console_log ''Found ${completed.length} completed todos'') (\<lambda>_.
     returnM completed))))))"

section \<open>The demo drivers\<close>

text \<open>
  \<open>v?.rest\<close>: when \<open>v\<close> is \<open>undefined\<close> or \<open>null\<close> the whole chain is \<open>undefined\<close>,
  otherwise the rest of the chain is evaluated on \<open>v\<close>.
\<close>

definition opt_chain :: "js \<Rightarrow> (js \<Rightarrow> error + js) \<Rightarrow> error + js" where
  "opt_chain v rest = (if v = JUndefined \<or> v = JNull then Inr JUndefined else rest v)"

text \<open>\<open>b.substring(0, 50)\<close>: only a string has the method.\<close>

fun substring_0_50 :: "js \<Rightarrow> error + js" where
  "substring_0_50 (JStr s) = Inr (JStr (take 50 s))"
| "substring_0_50 v = Inl TypeError"

text \<open>\<open>comments[0]?.body.substring(0, 50)\<close>\<close>

definition first_comment_excerpt :: "js \<Rightarrow> error + js" where
  "first_comment_excerpt comments =
     (case get_member comments ''0'' of
        Inl e \<Rightarrow> Inl e
      | Inr c \<Rightarrow> opt_chain c (\<lambda>c. case get_member c ''body'' of
                                    Inl e \<Rightarrow> Inl e
                                  | Inr b \<Rightarrow> substring_0_50 b))"

text \<open>\<open>album1Photos[0]?.title\<close>\<close>

definition sample_photo_title :: "js \<Rightarrow> error + js" where
  "sample_photo_title album1Photos =
     (case get_member album1Photos ''0'' of
        Inl e \<Rightarrow> Inl e
      | Inr p \<Rightarrow> opt_chain p (\<lambda>p. get_member p ''title''))"

text \<open>
  An operand of \<open>/\<close> is converted to a number. The conversion of an array or an object goes
  through its conversion to a string and throws where that one throws; the number itself,
  a floating-point value, is not modelled, and neither is the text \<open>toFixed(1)\<close> makes of
  the completion rate.
\<close>

definition to_number :: "js \<Rightarrow> unit io" where
  "to_number v =
     lift (case v of
             JArr xs \<Rightarrow> (case to_string v of Inl e \<Rightarrow> Inl e | Inr t \<Rightarrow> Inr ())
           | JObj ps \<Rightarrow> (case to_string v of Inl e \<Rightarrow> Inl e | Inr t \<Rightarrow> Inr ())
           | _ \<Rightarrow> Inr ())"

definition dashes :: "nat \<Rightarrow> string" where
  "dashes n = replicate n CHR ''-''"

text \<open>The object literals the drivers pass to the wrappers.\<close>

definition demo_post :: js where
  "demo_post = JObj [(''title'', JStr ''My Test Post''),
                     (''body'', JStr ''This is a test post created via API''),
                     (''userId'', JNum 1)]"

definition demo_update :: js where
  "demo_update = JObj [(''title'', JStr ''Updated Test Post''),
                       (''body'', JStr ''This post has been updated''),
                       (''userId'', JNum 1)]"

definition demo_patch :: js where
  "demo_patch = JObj [(''title'', JStr ''Patched Test Post'')]"

definition quick_post :: js where
  "quick_post = JObj [(''title'', JStr ''Quick Test Post''),
                      (''body'', JStr ''Testing POST request''),
                      (''userId'', JNum 99)]"

text \<open>
  The body of the \<open>try\<close> of \<open>runFullDemo\<close>, cut at the numbered comments of the
  source. Each part returns the values the summary reads later.
\<close>

definition posts_demo :: "world \<Rightarrow> js io" where
  "posts_demo w =
     bindM (console_log ''1 POSTS DEMO'') (\<lambda>_.
     bindM (console_log (dashes 20)) (\<lambda>_.
     bindM (getPost w (JNum 1)) (\<lambda>post1.
     bindM (getPostsByUser w (JNum 1)) (\<lambda>userPosts.
     bindM (createPost w demo_post) (\<lambda>newPost.
     bindM (member newPost ''id'') (\<lambda>newId.
     bindM (updatePost w newId demo_update) (\<lambda>updatedPost.
     bindM (member newPost ''id'') (\<lambda>newId.
     bindM (patchPost w newId demo_patch) (\<lambda>patchedPost.
     bindM (console_log [CHR 0x0A]) (\<lambda>_.
     returnM userPosts))))))))))"

definition comments_demo :: "world \<Rightarrow> js io" where
  \<open>comments_demo w =
     bindM (console_log ''2 COMMENTS DEMO'') (\<lambda>_.
     bindM (console_log (dashes 20)) (\<lambda>_.
     bindM (getCommentsForPost w (JNum 1)) (\<lambda>comments.
     bindM (lift (first_comment_excerpt comments)) (\<lambda>excerpt.
     bindM (interp excerpt) (\<lambda>_.
     bindM (console_log ''First comment: "${comments[0]?.body.substring(0, 50)}..."'') (\<lambda>_.
     bindM (console_log [CHR 0x0A]) (\<lambda>_.
     returnM comments)))))))\<close>

definition users_demo :: "world \<Rightarrow> js io" where
  "users_demo w =
     bindM (console_log ''3 USERS DEMO'') (\<lambda>_.
     bindM (console_log (dashes 20)) (\<lambda>_.
     bindM (getAllUsers w) (\<lambda>users.
     bindM (getUser w (JNum 1)) (\<lambda>user1.
     bindM (getUserAlbums w (JNum 1)) (\<lambda>user1Albums.
     bindM (getUserTodos w (JNum 1)) (\<lambda>user1Todos.
     bindM (console_log [CHR 0x0A]) (\<lambda>_.
     returnM users)))))))"

definition albums_demo :: "world \<Rightarrow> (js \<times> js) io" where
  "albums_demo w =
     bindM (console_log ''4 ALBUMS & PHOTOS DEMO'') (\<lambda>_.
     bindM (console_log (dashes 25)) (\<lambda>_.
     bindM (getAllAlbums w) (\<lambda>albums.
     bindM (getAlbumPhotos w (JNum 1)) (\<lambda>album1Photos.
     bindM (lift (sample_photo_title album1Photos)) (\<lambda>title.
     bindM (interp title) (\<lambda>_.
     bindM (console_log ''Sample photo: ${album1Photos[0]?.title}'') (\<lambda>_.
     bindM (console_log [CHR 0x0A]) (\<lambda>_.
     returnM (albums, album1Photos)))))))))"

definition todos_demo :: "world \<Rightarrow> (js \<times> js) io" where
  "todos_demo w =
     bindM (console_log ''5 TODOS DEMO'') (\<lambda>_.
     bindM (console_log (dashes 15)) (\<lambda>_.
     bindM (getAllTodos w) (\<lambda>todos.
     bindM (getCompletedTodos w) (\<lambda>completedTodos.
     bindM (member completedTodos ''length'') (\<lambda>nCompleted.
     bindM (member todos ''length'') (\<lambda>nTodos.
     bindM (to_number nCompleted) (\<lambda>_.
     bindM (to_number nTodos) (\<lambda>_.
     bindM (console_log ''Todo completion rate: ${completionRate}%'') (\<lambda>_.
     bindM (console_log [CHR 0x0A]) (\<lambda>_.
     returnM (todos, completedTodos)))))))))))"

text \<open>One line of the summary: \<open>console.log(`... ${v.length} ...`)\<close>.\<close>

definition log_length :: "js \<Rightarrow> string \<Rightarrow> js io" where
  "log_length v msg =
     bindM (member v ''length'') (\<lambda>n.
     bindM (interp n) (\<lambda>_.
     console_log msg))"

definition demo_summary :: "js \<Rightarrow> js \<Rightarrow> js \<Rightarrow> js \<Rightarrow> js \<Rightarrow> js \<Rightarrow> js \<Rightarrow> js io" where
  "demo_summary userPosts comments users albums album1Photos todos completedTodos =
     bindM (console_log ''DEMO SUMMARY'') (\<lambda>_.
     bindM (console_log (dashes 20)) (\<lambda>_.
     bindM (log_length userPosts ''Posts: ${userPosts.length} by user 1'') (\<lambda>_.
     bindM (log_length comments ''Comments: ${comments.length} on post 1'') (\<lambda>_.
     bindM (log_length users ''Users: ${users.length} total'') (\<lambda>_.
     bindM (log_length albums ''Albums: ${albums.length} total'') (\<lambda>_.
     bindM (log_length album1Photos ''Photos: ${album1Photos.length} in album 1'') (\<lambda>_.
     bindM (member todos ''length'') (\<lambda>n.
     bindM (interp n) (\<lambda>_.
     bindM (member completedTodos ''length'') (\<lambda>n.
     bindM (interp n) (\<lambda>_.
     bindM (console_log ''Todos: ${todos.length} total (${completedTodos.length} completed)'') (\<lambda>_.
     console_log (CHR 0x0A # ''Demo completed successfully!'')))))))))))))"

definition runFullDemo_try :: "world \<Rightarrow> js io" where
  "runFullDemo_try w =
     bindM (posts_demo w) (\<lambda>userPosts.
     bindM (comments_demo w) (\<lambda>comments.
     bindM (users_demo w) (\<lambda>users.
     bindM (albums_demo w) (\<lambda>(albums, album1Photos).
     bindM (todos_demo w) (\<lambda>(todos, completedTodos).
     demo_summary userPosts comments users albums album1Photos todos completedTodos)))))"

definition runFullDemo :: "world \<Rightarrow> js io" where
  "runFullDemo w =
     bindM (console_log ''Starting JSONPlaceholder API Demo'') (\<lambda>_.
     bindM (console_log (replicate 37 CHR ''='' @ [CHR 0x0A])) (\<lambda>_.
     bindM (try_catch (runFullDemo_try w) (\<lambda>error. console_error ''Demo failed:'' error)) (\<lambda>_.
     returnM JUndefined)))"

definition quickTest_try :: "world \<Rightarrow> js io" where
  "quickTest_try w =
     bindM (getPost w (JNum 1)) (\<lambda>post.
     bindM (console_log ''GET request successful'') (\<lambda>_.
     bindM (createPost w quick_post) (\<lambda>newPost.
     bindM (console_log ''POST request successful'') (\<lambda>_.
     bindM (getPostsByUser w (JNum 1)) (\<lambda>userPosts.
     bindM (console_log ''Query parameters working'') (\<lambda>_.
     bindM (getCommentsForPost w (JNum 1)) (\<lambda>comments.
     bindM (console_log ''Nested routes working'') (\<lambda>_.
     console_log (CHR 0x0A # ''All tests passed! API is working correctly.'')))))))))"

definition quickTest :: "world \<Rightarrow> js io" where
  "quickTest w =
     bindM (console_log (''Running Quick Test...'' @ [CHR 0x0A])) (\<lambda>_.
     bindM (try_catch (quickTest_try w) (\<lambda>error. console_error ''Quick test failed:'' error)) (\<lambda>_.
     returnM JUndefined))"

section \<open>Observing a run\<close>

text \<open>
  The init object \<open>makeRequest\<close> hands to \<open>fetch\<close> for an argument that is not \<open>null\<close>
  (on \<open>null\<close> the read of \<open>options.headers\<close> throws before \<open>fetch\<close> is called).
\<close>

definition sent_init :: "js \<Rightarrow> js" where
  "sent_init arg =
     (let options = (if arg = JUndefined then JObj [] else arg) in
      fetch_init options
        (case get_member options ''headers'' of Inr h \<Rightarrow> h | Inl e \<Rightarrow> JUndefined))"

text \<open>
  The headers object holding the default header alone, the init object of a wrapper that
  passes no options, and the one of a wrapper that passes a method and a body.
\<close>

definition json_headers :: js where
  "json_headers = JObj [(''Content-Type'', JStr ''application/json'')]"

definition default_init :: js where
  "default_init = JObj [(''headers'', json_headers)]"

definition json_init :: "string \<Rightarrow> js \<Rightarrow> js" where
  "json_init method body =
     JObj [(''headers'', json_headers), (''method'', JStr method), (''body'', body)]"


text \<open>A computation that never calls \<open>fetch\<close>.\<close>

definition quiet :: "'a io \<Rightarrow> bool" where
  "quiet m = (\<forall>s. fetches (snd (m s)) = fetches s)"

text \<open>
  From any events so far, every call of \<open>fetch\<close> the computation adds has the default
  header alone as the \<open>headers\<close> of its init object.
\<close>

definition sends_json_header :: "'a io \<Rightarrow> bool" where
  "sends_json_header m =
     (\<forall>s. \<exists>reqs. fetches (snd (m s)) = fetches s @ reqs
            \<and> (\<forall>r \<in> set reqs. get_member (snd r) ''headers'' = Inr json_headers))"

text \<open>
  The frame both drivers put around their body:
  \<open>try { body } catch (error) { console.error(label, error); }\<close>, after which the
  function ends and its promise is fulfilled with \<open>undefined\<close>.
\<close>

definition run_guarded :: "string \<Rightarrow> js io \<Rightarrow> js io" where
  "run_guarded label body =
     bindM (try_catch body (\<lambda>error. console_error label error)) (\<lambda>_. returnM JUndefined)"

section \<open>Worlds to run the script in\<close>

text \<open>A service that is not reachable: every call of \<open>fetch\<close> is rejected.\<close>

definition world_offline :: world where
  "world_offline = (\<lambda>n url init. Rejects (Rejection ''offline''))"

text \<open>A service that answers every request with status 200 and one post.\<close>

definition world_ok :: world where
  "world_ok = (\<lambda>n url init.
     Responds \<lparr>status = 200, json_result = Inr (JObj [(''id'', JNum 101), (''title'', JStr ''a'')])\<rparr>)"

text \<open>The same service, except that the second request is answered with status 500.\<close>

definition world_second_fails :: world where
  "world_second_fails = (\<lambda>n url init.
     if n = 1 then Responds \<lparr>status = 500, json_result = Inr JNull\<rparr>
     else Responds \<lparr>status = 200, json_result = Inr (JObj [(''id'', JNum 101), (''title'', JStr ''a'')])\<rparr>)"

text \<open>A service that answers every request with status 200 and three todos.\<close>

definition three_todos :: "js list" where
  "three_todos =
     [JObj [(''id'', JNum 1), (''title'', JStr ''a''), (''completed'', JBool True)],
      JObj [(''id'', JNum 2), (''title'', JStr ''b''), (''completed'', JBool False)],
      JObj [(''id'', JNum 3), (''title'', JStr ''c''), (''completed'', JBool True)]]"

definition world_todos :: world where
  "world_todos = (\<lambda>n url init. Responds \<lparr>status = 200, json_result = Inr (JArr three_todos)\<rparr>)"

section \<open>Basic facts\<close>

lemma fetches_append: "fetches (xs @ ys) = fetches xs @ fetches ys"
  by (induction xs rule: fetches.induct) auto

lemma array_index_non_digit: "\<not> is_digit c \<Longrightarrow> array_index (c # k) = None"
  by (simp add: array_index_def)

lemma array_index_names:
  "array_index ''method'' = None"
  "array_index ''body'' = None"
  "array_index ''headers'' = None"
  "array_index ''id'' = None"
  "array_index ''title'' = None"
  "array_index ''userId'' = None"
  by (simp_all add: array_index_non_digit is_digit_def)

lemma set_prop_new:
  "k \<notin> fst ` set ps \<Longrightarrow> array_index k = None \<Longrightarrow> set_prop ps k v = ps @ [(k, v)]"
  by (simp add: set_prop_def)

lemma sent_init_undefined: "sent_init JUndefined = default_init"
  by (simp add: sent_init_def fetch_init_def spread_def default_init_def json_headers_def)

lemma sent_init_method_body:
  "sent_init (JObj [(''method'', JStr m), (''body'', b)]) = json_init m b"
  by (simp add: sent_init_def fetch_init_def spread_def set_prop_new array_index_names
        json_init_def json_headers_def)

lemma sent_init_method:
  "sent_init (JObj [(''method'', m)]) = JObj [(''headers'', json_headers), (''method'', m)]"
  by (simp add: sent_init_def fetch_init_def spread_def set_prop_new array_index_names
        json_headers_def)

lemma sent_init_headers:
  "sent_init (JObj [(''headers'', h)]) = JObj [(''headers'', h)]"
  by (simp add: sent_init_def fetch_init_def spread_def set_prop_def)

lemma get_member_defined:
  "v \<noteq> JUndefined \<Longrightarrow> v \<noteq> JNull \<Longrightarrow> \<exists>h. get_member v k = Inr h"
  by (cases v) auto

subsection \<open>Steps of a computation\<close>

lemma bindM_console_log: "bindM (console_log msg) f s = f JUndefined (s @ [ConsoleLog msg])"
  by (simp add: bindM_def console_log_def)

lemma bindM_interp: "to_string v = Inr sv \<Longrightarrow> bindM (interp v) f s = f sv s"
  by (simp add: bindM_def interp_def lift_def)

lemma bindM_interp_fails: "to_string v = Inl e \<Longrightarrow> bindM (interp v) f s = (Inl e, s)"
  by (simp add: bindM_def interp_def lift_def)

lemma bindM_member: "get_member v k = Inr x \<Longrightarrow> bindM (member v k) f s = f x s"
  by (simp add: bindM_def member_def lift_def)

lemma bindM_lift: "bindM (lift (Inr x)) f s = f x s"
  by (simp add: bindM_def lift_def)

lemma bindM_assoc: "bindM (bindM m f) g = bindM m (\<lambda>x. bindM (f x) g)"
  by (auto simp: bindM_def fun_eq_iff split: prod.splits sum.splits)

subsection \<open>The helper, case by case\<close>

text \<open>Every way a call of the helper can go, for an argument that is not \<open>null\<close>.\<close>

lemma makeRequest_cases:
  assumes "arg \<noteq> JNull"
  shows "makeRequest w url arg s =
     (case w (length (fetches s)) url (sent_init arg) of
        Rejects e \<Rightarrow>
          (Inl e, s @ [Fetch url (sent_init arg), ConsoleError ''API Request failed:'' e])
      | Responds r \<Rightarrow>
          if \<not> response_ok r then
            (Inl (Error (''HTTP error! status: '' @ show_nat (status r))),
             s @ [Fetch url (sent_init arg),
                  ConsoleError ''API Request failed:''
                    (Error (''HTTP error! status: '' @ show_nat (status r)))])
          else if status r = 204 then
            (Inr (JObj [(''success'', JBool True)]), s @ [Fetch url (sent_init arg)])
          else (case json_result r of
                  Inl e \<Rightarrow>
                    (Inl e, s @ [Fetch url (sent_init arg), ResponseJson,
                                 ConsoleError ''API Request failed:'' e])
                | Inr v \<Rightarrow> (Inr v, s @ [Fetch url (sent_init arg), ResponseJson])))"
proof -
  define options where "options = (if arg = JUndefined then JObj [] else arg)"
  have "options \<noteq> JUndefined" "options \<noteq> JNull"
    using assms by (auto simp: options_def)
  then obtain h where h: "get_member options ''headers'' = Inr h"
    using get_member_defined by blast
  have si: "sent_init arg = fetch_init options h"
    by (simp add: sent_init_def options_def [symmetric] h)
  show ?thesis
    unfolding makeRequest_def options_def [symmetric] Let_def si
    by (simp add: try_catch_def bindM_def member_def lift_def h
        fetch_def throwM_def returnM_def console_error_def response_json_def
        split: outcome.splits sum.splits)
qed

lemma makeRequest_fetches:
  assumes "arg \<noteq> JNull"
  shows "fetches (snd (makeRequest w url arg s)) = fetches s @ [(url, sent_init arg)]"
  by (simp add: makeRequest_cases [OF assms] fetches_append split: outcome.splits sum.splits)

lemma makeRequest_json:
  assumes "arg \<noteq> JNull"
    and "w (length (fetches s)) url (sent_init arg) = Responds r"
    and "response_ok r" and "status r \<noteq> 204" and "json_result r = Inr v"
  shows "makeRequest w url arg s = (Inr v, s @ [Fetch url (sent_init arg), ResponseJson])"
  using assms by (simp add: makeRequest_cases)

subsection \<open>Computations that call fetch once, or not at all\<close>

lemma quiet_returnM: "quiet (returnM x)"
  by (simp add: quiet_def returnM_def)

lemma quiet_lift: "quiet (lift r)"
  by (simp add: quiet_def lift_def)

lemma quiet_member: "quiet (member v k)"
  by (simp add: member_def quiet_lift)

lemma quiet_interp: "quiet (interp v)"
  by (simp add: interp_def quiet_lift)

lemma quiet_console_log: "quiet (console_log msg)"
  by (simp add: quiet_def console_log_def fetches_append)

lemma quiet_bindM: "quiet m \<Longrightarrow> (\<And>x. quiet (f x)) \<Longrightarrow> quiet (bindM m f)"
  by (auto simp: quiet_def bindM_def split: prod.splits sum.splits) (metis snd_conv)+

lemmas quiet_intros =
  quiet_bindM quiet_returnM quiet_lift quiet_member quiet_interp quiet_console_log

lemma fetches_bindM_quiet:
  "(\<And>x. quiet (f x)) \<Longrightarrow> fetches (snd (bindM m f s)) = fetches (snd (m s))"
  by (auto simp: quiet_def bindM_def split: prod.splits sum.splits)

subsection \<open>The one call of fetch of each wrapper\<close>

lemma getAllPosts_fetches:
  "fetches (snd (getAllPosts w s)) = fetches s @ [(API_BASE_URL @ ''/posts'', default_init)]"
  unfolding getAllPosts_def
  by (simp add: bindM_console_log fetches_bindM_quiet quiet_intros
        makeRequest_fetches sent_init_undefined fetches_append)

lemma getPost_fetches:
  assumes "to_string v = Inr sv"
  shows "fetches (snd (getPost w v s)) = fetches s @ [(API_BASE_URL @ ''/posts/'' @ sv, default_init)]"
  unfolding getPost_def
  by (simp add: bindM_interp [OF assms] bindM_console_log fetches_bindM_quiet quiet_intros
        makeRequest_fetches sent_init_undefined fetches_append)

lemma getPost_no_fetch:
  assumes "to_string v = Inl e"
  shows "fetches (snd (getPost w v s)) = fetches s"
  unfolding getPost_def
  by (simp add: bindM_interp_fails [OF assms])

lemma getPostsByUser_fetches:
  assumes "to_string v = Inr sv"
  shows "fetches (snd (getPostsByUser w v s)) = fetches s @ [(API_BASE_URL @ ''/posts?userId='' @ sv, default_init)]"
  unfolding getPostsByUser_def
  by (simp add: bindM_interp [OF assms] bindM_console_log fetches_bindM_quiet quiet_intros
        makeRequest_fetches sent_init_undefined fetches_append)

lemma getPostsByUser_no_fetch:
  assumes "to_string v = Inl e"
  shows "fetches (snd (getPostsByUser w v s)) = fetches s"
  unfolding getPostsByUser_def
  by (simp add: bindM_interp_fails [OF assms])

lemma createPost_fetches:
  "fetches (snd (createPost w postData s)) = fetches s @ [(API_BASE_URL @ ''/posts'', json_init ''POST'' (JSON_stringify postData))]"
  unfolding createPost_def
  by (simp add: bindM_console_log fetches_bindM_quiet quiet_intros
        makeRequest_fetches sent_init_method_body fetches_append)

lemma updatePost_fetches:
  assumes "to_string v = Inr sv"
  shows "fetches (snd (updatePost w v postData s)) = fetches s @ [(API_BASE_URL @ ''/posts/'' @ sv, json_init ''PUT'' (JSON_stringify (JObj (spread [(''id'', v)] postData))))]"
  unfolding updatePost_def
  by (simp add: bindM_interp [OF assms] bindM_console_log fetches_bindM_quiet quiet_intros
        makeRequest_fetches sent_init_method_body fetches_append)

lemma updatePost_no_fetch:
  assumes "to_string v = Inl e"
  shows "fetches (snd (updatePost w v postData s)) = fetches s"
  unfolding updatePost_def
  by (simp add: bindM_interp_fails [OF assms])

lemma patchPost_fetches:
  assumes "to_string v = Inr sv"
  shows "fetches (snd (patchPost w v partialData s)) = fetches s @ [(API_BASE_URL @ ''/posts/'' @ sv, json_init ''PATCH'' (JSON_stringify partialData))]"
  unfolding patchPost_def
  by (simp add: bindM_interp [OF assms] bindM_console_log fetches_bindM_quiet quiet_intros
        makeRequest_fetches sent_init_method_body fetches_append)

lemma patchPost_no_fetch:
  assumes "to_string v = Inl e"
  shows "fetches (snd (patchPost w v partialData s)) = fetches s"
  unfolding patchPost_def
  by (simp add: bindM_interp_fails [OF assms])

lemma deletePost_fetches:
  assumes "to_string v = Inr sv"
  shows "fetches (snd (deletePost w v s)) = fetches s @ [(API_BASE_URL @ ''/posts/'' @ sv, JObj [(''headers'', json_headers), (''method'', JStr ''DELETE'')])]"
  unfolding deletePost_def
  by (simp add: bindM_interp [OF assms] bindM_console_log fetches_bindM_quiet quiet_intros
        makeRequest_fetches sent_init_method fetches_append)

lemma deletePost_no_fetch:
  assumes "to_string v = Inl e"
  shows "fetches (snd (deletePost w v s)) = fetches s"
  unfolding deletePost_def
  by (simp add: bindM_interp_fails [OF assms])

lemma getAllComments_fetches:
  "fetches (snd (getAllComments w s)) = fetches s @ [(API_BASE_URL @ ''/comments'', default_init)]"
  unfolding getAllComments_def
  by (simp add: bindM_console_log fetches_bindM_quiet quiet_intros
        makeRequest_fetches sent_init_undefined fetches_append)

lemma getCommentsForPost_fetches:
  assumes "to_string v = Inr sv"
  shows "fetches (snd (getCommentsForPost w v s)) = fetches s @ [(API_BASE_URL @ ''/posts/'' @ sv @ ''/comments'', default_init)]"
  unfolding getCommentsForPost_def
  by (simp add: bindM_interp [OF assms] bindM_console_log fetches_bindM_quiet quiet_intros
        makeRequest_fetches sent_init_undefined fetches_append)

lemma getCommentsForPost_no_fetch:
  assumes "to_string v = Inl e"
  shows "fetches (snd (getCommentsForPost w v s)) = fetches s"
  unfolding getCommentsForPost_def
  by (simp add: bindM_interp_fails [OF assms])

lemma getAllUsers_fetches:
  "fetches (snd (getAllUsers w s)) = fetches s @ [(API_BASE_URL @ ''/users'', default_init)]"
  unfolding getAllUsers_def
  by (simp add: bindM_console_log fetches_bindM_quiet quiet_intros
        makeRequest_fetches sent_init_undefined fetches_append)

lemma getUser_fetches:
  assumes "to_string v = Inr sv"
  shows "fetches (snd (getUser w v s)) = fetches s @ [(API_BASE_URL @ ''/users/'' @ sv, default_init)]"
  unfolding getUser_def
  by (simp add: bindM_interp [OF assms] bindM_console_log fetches_bindM_quiet quiet_intros
        makeRequest_fetches sent_init_undefined fetches_append)

lemma getUser_no_fetch:
  assumes "to_string v = Inl e"
  shows "fetches (snd (getUser w v s)) = fetches s"
  unfolding getUser_def
  by (simp add: bindM_interp_fails [OF assms])

lemma getUserAlbums_fetches:
  assumes "to_string v = Inr sv"
  shows "fetches (snd (getUserAlbums w v s)) = fetches s @ [(API_BASE_URL @ ''/users/'' @ sv @ ''/albums'', default_init)]"
  unfolding getUserAlbums_def
  by (simp add: bindM_interp [OF assms] bindM_console_log fetches_bindM_quiet quiet_intros
        makeRequest_fetches sent_init_undefined fetches_append)

lemma getUserAlbums_no_fetch:
  assumes "to_string v = Inl e"
  shows "fetches (snd (getUserAlbums w v s)) = fetches s"
  unfolding getUserAlbums_def
  by (simp add: bindM_interp_fails [OF assms])

lemma getUserTodos_fetches:
  assumes "to_string v = Inr sv"
  shows "fetches (snd (getUserTodos w v s)) = fetches s @ [(API_BASE_URL @ ''/users/'' @ sv @ ''/todos'', default_init)]"
  unfolding getUserTodos_def
  by (simp add: bindM_interp [OF assms] bindM_console_log fetches_bindM_quiet quiet_intros
        makeRequest_fetches sent_init_undefined fetches_append)

lemma getUserTodos_no_fetch:
  assumes "to_string v = Inl e"
  shows "fetches (snd (getUserTodos w v s)) = fetches s"
  unfolding getUserTodos_def
  by (simp add: bindM_interp_fails [OF assms])

lemma getAllAlbums_fetches:
  "fetches (snd (getAllAlbums w s)) = fetches s @ [(API_BASE_URL @ ''/albums'', default_init)]"
  unfolding getAllAlbums_def
  by (simp add: bindM_console_log fetches_bindM_quiet quiet_intros
        makeRequest_fetches sent_init_undefined fetches_append)

lemma getAlbumPhotos_fetches:
  assumes "to_string v = Inr sv"
  shows "fetches (snd (getAlbumPhotos w v s)) = fetches s @ [(API_BASE_URL @ ''/albums/'' @ sv @ ''/photos'', default_init)]"
  unfolding getAlbumPhotos_def
  by (simp add: bindM_interp [OF assms] bindM_console_log fetches_bindM_quiet quiet_intros
        makeRequest_fetches sent_init_undefined fetches_append)

lemma getAlbumPhotos_no_fetch:
  assumes "to_string v = Inl e"
  shows "fetches (snd (getAlbumPhotos w v s)) = fetches s"
  unfolding getAlbumPhotos_def
  by (simp add: bindM_interp_fails [OF assms])

lemma getAllPhotos_fetches:
  "fetches (snd (getAllPhotos w s)) = fetches s @ [(API_BASE_URL @ ''/photos'', default_init)]"
  unfolding getAllPhotos_def
  by (simp add: bindM_console_log fetches_bindM_quiet quiet_intros
        makeRequest_fetches sent_init_undefined fetches_append)

lemma getAllTodos_fetches:
  "fetches (snd (getAllTodos w s)) = fetches s @ [(API_BASE_URL @ ''/todos'', default_init)]"
  unfolding getAllTodos_def
  by (simp add: bindM_console_log fetches_bindM_quiet quiet_intros
        makeRequest_fetches sent_init_undefined fetches_append)

lemma getCompletedTodos_fetches:
  "fetches (snd (getCompletedTodos w s)) = fetches s @ [(API_BASE_URL @ ''/todos'', default_init)]"
  unfolding getCompletedTodos_def
  by (simp add: bindM_console_log fetches_bindM_quiet quiet_intros
        makeRequest_fetches sent_init_undefined fetches_append)

subsection \<open>The headers of each wrapper's call\<close>

lemma sends_json_headerI:
  "(\<And>s. fetches (snd (m s)) = fetches s @ [(url, init)])
     \<Longrightarrow> get_member init ''headers'' = Inr json_headers
     \<Longrightarrow> sends_json_header m"
  by (simp add: sends_json_header_def)

lemma sends_json_header_none:
  "(\<And>s. fetches (snd (m s)) = fetches s) \<Longrightarrow> sends_json_header m"
  by (simp add: sends_json_header_def)

lemma headers_of_inits:
  "get_member default_init ''headers'' = Inr json_headers"
  "get_member (json_init method body) ''headers'' = Inr json_headers"
  "get_member (JObj [(''headers'', json_headers), (''method'', m)]) ''headers'' = Inr json_headers"
  by (simp_all add: default_init_def json_init_def)

lemma getAllPosts_sends_json_header: "sends_json_header (getAllPosts w)"
  by (rule sends_json_headerI [OF getAllPosts_fetches]) (simp add: headers_of_inits)

lemma getPost_sends_json_header: "sends_json_header (getPost w v)"
proof (cases "to_string v")
  case (Inl e)
  then show ?thesis
    by (simp add: sends_json_header_none getPost_no_fetch)
next
  case (Inr sv)
  show ?thesis
    by (rule sends_json_headerI [OF getPost_fetches [OF Inr]]) (simp add: headers_of_inits)
qed

lemma getPostsByUser_sends_json_header: "sends_json_header (getPostsByUser w v)"
proof (cases "to_string v")
  case (Inl e)
  then show ?thesis
    by (simp add: sends_json_header_none getPostsByUser_no_fetch)
next
  case (Inr sv)
  show ?thesis
    by (rule sends_json_headerI [OF getPostsByUser_fetches [OF Inr]]) (simp add: headers_of_inits)
qed

lemma createPost_sends_json_header: "sends_json_header (createPost w postData)"
  by (rule sends_json_headerI [OF createPost_fetches]) (simp add: headers_of_inits)

lemma updatePost_sends_json_header: "sends_json_header (updatePost w v postData)"
proof (cases "to_string v")
  case (Inl e)
  then show ?thesis
    by (simp add: sends_json_header_none updatePost_no_fetch)
next
  case (Inr sv)
  show ?thesis
    by (rule sends_json_headerI [OF updatePost_fetches [OF Inr]]) (simp add: headers_of_inits)
qed

lemma patchPost_sends_json_header: "sends_json_header (patchPost w v partialData)"
proof (cases "to_string v")
  case (Inl e)
  then show ?thesis
    by (simp add: sends_json_header_none patchPost_no_fetch)
next
  case (Inr sv)
  show ?thesis
    by (rule sends_json_headerI [OF patchPost_fetches [OF Inr]]) (simp add: headers_of_inits)
qed

lemma deletePost_sends_json_header: "sends_json_header (deletePost w v)"
proof (cases "to_string v")
  case (Inl e)
  then show ?thesis
    by (simp add: sends_json_header_none deletePost_no_fetch)
next
  case (Inr sv)
  show ?thesis
    by (rule sends_json_headerI [OF deletePost_fetches [OF Inr]]) (simp add: headers_of_inits)
qed

lemma getAllComments_sends_json_header: "sends_json_header (getAllComments w)"
  by (rule sends_json_headerI [OF getAllComments_fetches]) (simp add: headers_of_inits)

lemma getCommentsForPost_sends_json_header: "sends_json_header (getCommentsForPost w v)"
proof (cases "to_string v")
  case (Inl e)
  then show ?thesis
    by (simp add: sends_json_header_none getCommentsForPost_no_fetch)
next
  case (Inr sv)
  show ?thesis
    by (rule sends_json_headerI [OF getCommentsForPost_fetches [OF Inr]]) (simp add: headers_of_inits)
qed

lemma getAllUsers_sends_json_header: "sends_json_header (getAllUsers w)"
  by (rule sends_json_headerI [OF getAllUsers_fetches]) (simp add: headers_of_inits)

lemma getUser_sends_json_header: "sends_json_header (getUser w v)"
proof (cases "to_string v")
  case (Inl e)
  then show ?thesis
    by (simp add: sends_json_header_none getUser_no_fetch)
next
  case (Inr sv)
  show ?thesis
    by (rule sends_json_headerI [OF getUser_fetches [OF Inr]]) (simp add: headers_of_inits)
qed

lemma getUserAlbums_sends_json_header: "sends_json_header (getUserAlbums w v)"
proof (cases "to_string v")
  case (Inl e)
  then show ?thesis
    by (simp add: sends_json_header_none getUserAlbums_no_fetch)
next
  case (Inr sv)
  show ?thesis
    by (rule sends_json_headerI [OF getUserAlbums_fetches [OF Inr]]) (simp add: headers_of_inits)
qed

lemma getUserTodos_sends_json_header: "sends_json_header (getUserTodos w v)"
proof (cases "to_string v")
  case (Inl e)
  then show ?thesis
    by (simp add: sends_json_header_none getUserTodos_no_fetch)
next
  case (Inr sv)
  show ?thesis
    by (rule sends_json_headerI [OF getUserTodos_fetches [OF Inr]]) (simp add: headers_of_inits)
qed

lemma getAllAlbums_sends_json_header: "sends_json_header (getAllAlbums w)"
  by (rule sends_json_headerI [OF getAllAlbums_fetches]) (simp add: headers_of_inits)

lemma getAlbumPhotos_sends_json_header: "sends_json_header (getAlbumPhotos w v)"
proof (cases "to_string v")
  case (Inl e)
  then show ?thesis
    by (simp add: sends_json_header_none getAlbumPhotos_no_fetch)
next
  case (Inr sv)
  show ?thesis
    by (rule sends_json_headerI [OF getAlbumPhotos_fetches [OF Inr]]) (simp add: headers_of_inits)
qed

lemma getAllPhotos_sends_json_header: "sends_json_header (getAllPhotos w)"
  by (rule sends_json_headerI [OF getAllPhotos_fetches]) (simp add: headers_of_inits)

lemma getAllTodos_sends_json_header: "sends_json_header (getAllTodos w)"
  by (rule sends_json_headerI [OF getAllTodos_fetches]) (simp add: headers_of_inits)

lemma getCompletedTodos_sends_json_header: "sends_json_header (getCompletedTodos w)"
  by (rule sends_json_headerI [OF getCompletedTodos_fetches]) (simp add: headers_of_inits)

subsection \<open>Spread keeps the later value\<close>













subsection \<open>The members of a serialized object\<close>





subsection \<open>Filtering the todos\<close>

lemma filter_completed_flags:
  assumes "\<forall>t \<in> set todos. \<exists>ps b. t = JObj ps \<and> map_of ps ''completed'' = Some (JBool b)"
  shows "filter_completed todos =
           Inr (filter (\<lambda>t. get_member t ''completed'' = Inr (JBool True)) todos)"
  using assms by (induction todos) auto

subsection \<open>The frame of the drivers\<close>

lemma run_guarded_call:
  "run_guarded label (bindM m f) s =
     (case m s of
        (Inl e, t) \<Rightarrow> (Inr JUndefined, t @ [ConsoleError label e])
      | (Inr x, t) \<Rightarrow> run_guarded label (f x) t)"
  by (simp add: run_guarded_def bindM_def try_catch_def console_error_def returnM_def
        split: prod.splits sum.splits)

lemma run_guarded_resolves: "fst (run_guarded label body s) = Inr JUndefined"
  by (simp add: run_guarded_def bindM_def try_catch_def console_error_def returnM_def
        split: prod.splits sum.splits)

lemma run_guarded_caught:
  "body s = (Inl e, t) \<Longrightarrow> run_guarded label body s = (Inr JUndefined, t @ [ConsoleError label e])"
  by (simp add: run_guarded_def bindM_def try_catch_def console_error_def returnM_def)

lemma runFullDemo_guarded:
  "runFullDemo w s =
     run_guarded ''Demo failed:'' (runFullDemo_try w)
       (s @ [ConsoleLog ''Starting JSONPlaceholder API Demo'',
             ConsoleLog (replicate 37 CHR ''='' @ [CHR 0x0A])])"
  by (simp add: runFullDemo_def run_guarded_def bindM_console_log)

lemma quickTest_guarded:
  "quickTest w s =
     run_guarded ''Quick test failed:'' (quickTest_try w)
       (s @ [ConsoleLog (''Running Quick Test...'' @ [CHR 0x0A])])"
  by (simp add: quickTest_def run_guarded_def bindM_console_log)

lemma case_callI:
  "(\<And>e t. X = (Inl e, t) \<Longrightarrow> P e t) \<Longrightarrow> (\<And>x t. X = (Inr x, t) \<Longrightarrow> Q x t)
     \<Longrightarrow> (case X of (Inl e, t) \<Rightarrow> P e t | (Inr x, t) \<Rightarrow> Q x t)"
  by (auto split: prod.splits sum.splits)

lemma case_pureI:
  "(\<And>e. r = Inl e \<Longrightarrow> P e) \<Longrightarrow> (\<And>x. r = Inr x \<Longrightarrow> Q x)
     \<Longrightarrow> (case r of Inl e \<Rightarrow> P e | Inr x \<Rightarrow> Q x)"
  by (auto split: sum.splits)

lemmas quick_unfold =
  quickTest_guarded quickTest_try_def run_guarded_call console_log_def

lemmas demo_unfold =
  runFullDemo_guarded runFullDemo_try_def posts_demo_def comments_demo_def users_demo_def
  albums_demo_def todos_demo_def member_def interp_def lift_def bindM_assoc run_guarded_call
  console_log_def returnM_def

subsection \<open>Evaluating a run in a given world\<close>

lemmas eval_simps =
  bindM_def try_catch_def console_log_def console_error_def member_def interp_def lift_def
  returnM_def makeRequest_cases sent_init_undefined sent_init_method_body sent_init_method
  response_ok_def fetches_append show_int_def show_nat.simps digit_char_def API_BASE_URL_def
  JSON_stringify_def json_quote_def json_escape_def default_init_def json_init_def
  json_headers_def

section \<open>The request helper: headers, status 204, failure statuses\<close>

text \<open>
  C1. The claim: the request always carries the default \<open>Content-Type: application/json\<close>
  merged with the caller's headers, so a caller who supplies headers without a
  \<open>Content-Type\<close> still sends it. The code builds the merged object and then spreads
  \<open>options\<close> over the init object, so the caller's own \<open>headers\<close> property replaces the
  merged one. Evaluated for \<open>makeRequest(url, {headers: {Authorization: 'Bearer t'}})\<close>:
  the one call of \<open>fetch\<close> gets exactly the caller's headers, and reading
  \<open>Content-Type\<close> from them gives \<open>undefined\<close>.
\<close>

theorem makeRequest_caller_headers_replace_merged:
  "fetches (snd (makeRequest w url
                   (JObj [(''headers'', JObj [(''Authorization'', JStr ''Bearer t'')])]) s))
     = fetches s @ [(url, JObj [(''headers'', JObj [(''Authorization'', JStr ''Bearer t'')])])]
   \<and> get_member (JObj [(''Authorization'', JStr ''Bearer t'')]) ''Content-Type'' = Inr JUndefined"
  by (simp add: makeRequest_fetches sent_init_headers)

theorem makeRequest_caller_headers_replace_merged_witness:
  "fetches (snd (makeRequest world_offline ''u''
                   (JObj [(''headers'', JObj [(''Authorization'', JStr ''Bearer t'')])]) []))
     = [(''u'', JObj [(''headers'', JObj [(''Authorization'', JStr ''Bearer t'')])])]"
  using makeRequest_caller_headers_replace_merged [of world_offline "''u''" "[]"]
  by simp

text \<open>
  C2. When the response to the request has status 204, \<open>makeRequest\<close> returns the object
  \<open>{success: true}\<close>, and the only event it adds is the call of \<open>fetch\<close>:
  \<open>response.json()\<close> is not called.
\<close>

theorem makeRequest_204_no_parse:
  assumes "arg \<noteq> JNull"
    and "w (length (fetches s)) url (sent_init arg) = Responds r"
    and "status r = 204"
  shows "makeRequest w url arg s =
           (Inr (JObj [(''success'', JBool True)]), s @ [Fetch url (sent_init arg)])"
  using assms by (simp add: makeRequest_cases response_ok_def)

theorem makeRequest_204_no_parse_witness:
  "makeRequest (\<lambda>n url init. Responds \<lparr>status = 204, json_result = Inl (Rejection ''empty body'')\<rparr>)
     ''https://jsonplaceholder.typicode.com/posts/1'' (JObj [(''method'', JStr ''DELETE'')]) []
   = (Inr (JObj [(''success'', JBool True)]),
      [Fetch ''https://jsonplaceholder.typicode.com/posts/1''
         (JObj [(''headers'', JObj [(''Content-Type'', JStr ''application/json'')]),
                (''method'', JStr ''DELETE'')])])"
  using makeRequest_204_no_parse
          [of "JObj [(''method'', JStr ''DELETE'')]"
              "\<lambda>n url init. Responds \<lparr>status = 204, json_result = Inl (Rejection ''empty body'')\<rparr>"
              "[]" "''https://jsonplaceholder.typicode.com/posts/1''"
              "\<lparr>status = 204, json_result = Inl (Rejection ''empty body'')\<rparr>"]
  by (simp add: sent_init_method json_headers_def)

text \<open>
  C3. When the response to the request has a status outside 200 to 299, \<open>makeRequest\<close>
  returns no value: its promise is rejected with \<open>Error\<close> whose message ends in the
  status code, and the line on \<open>console.error\<close> carrying that error is the last event
  before the rejection reaches the caller.
\<close>

theorem makeRequest_non_2xx_fails:
  assumes "arg \<noteq> JNull"
    and "w (length (fetches s)) url (sent_init arg) = Responds r"
    and "status r < 200 \<or> 299 < status r"
  shows "makeRequest w url arg s =
           (Inl (Error (''HTTP error! status: '' @ show_nat (status r))),
            s @ [Fetch url (sent_init arg),
                 ConsoleError ''API Request failed:''
                   (Error (''HTTP error! status: '' @ show_nat (status r)))])"
  using assms by (auto simp: makeRequest_cases response_ok_def)

theorem makeRequest_non_2xx_fails_witness:
  "makeRequest (\<lambda>n url init. Responds \<lparr>status = 404, json_result = Inr (JObj [])\<rparr>)
     ''https://jsonplaceholder.typicode.com/posts/0'' JUndefined []
   = (Inl (Error ''HTTP error! status: 404''),
      [Fetch ''https://jsonplaceholder.typicode.com/posts/0''
         (JObj [(''headers'', JObj [(''Content-Type'', JStr ''application/json'')])]),
       ConsoleError ''API Request failed:'' (Error ''HTTP error! status: 404'')])"
  using makeRequest_non_2xx_fails
          [of JUndefined
              "\<lambda>n url init. Responds \<lparr>status = 404, json_result = Inr (JObj [])\<rparr>"
              "[]" "''https://jsonplaceholder.typicode.com/posts/0''"
              "\<lparr>status = 404, json_result = Inr (JObj [])\<rparr>"]
  by (simp add: sent_init_undefined default_init_def json_headers_def show_nat.simps digit_char_def)

section \<open>The wrappers: URLs, methods, bodies, headers\<close>

text \<open>
  C5. \<open>updatePost(5, {title: "t", body: "b", userId: 1})\<close> adds exactly one call of
  \<open>fetch\<close>, whatever the service answers: to \<open>{base}/posts/5\<close>, with method \<open>PUT\<close>
  and with the body string \<open>{"id":5,"title":"t","body":"b","userId":1}\<close>.
\<close>

theorem updatePost_5_request:
  \<open>fetches (snd (updatePost w (JNum 5)
       (JObj [(''title'', JStr ''t''), (''body'', JStr ''b''), (''userId'', JNum 1)]) s))
   = fetches s @
     [(''https://jsonplaceholder.typicode.com/posts/5'',
       JObj [(''headers'', JObj [(''Content-Type'', JStr ''application/json'')]),
             (''method'', JStr ''PUT''),
             (''body'', JStr ''{"id":5,"title":"t","body":"b","userId":1}'')])]\<close>
proof -
  have shown: "to_string (JNum 5) = Inr ''5''"
    by (simp add: show_int_def show_nat.simps digit_char_def)
  have body: \<open>JSON_stringify (JObj (spread [(''id'', JNum 5)]
       (JObj [(''title'', JStr ''t''), (''body'', JStr ''b''), (''userId'', JNum 1)])))
     = JStr ''{"id":5,"title":"t","body":"b","userId":1}''\<close>
    by (simp add: JSON_stringify_def spread_def set_prop_new array_index_names json_quote_def
          json_escape_def show_int_def show_nat.simps digit_char_def)
  from updatePost_fetches [OF shown] show ?thesis
    by (simp add: body json_init_def json_headers_def API_BASE_URL_def)
qed

theorem updatePost_5_request_witness:
  \<open>fetches (snd (updatePost world_offline (JNum 5)
       (JObj [(''title'', JStr ''t''), (''body'', JStr ''b''), (''userId'', JNum 1)]) []))
   = [(''https://jsonplaceholder.typicode.com/posts/5'',
       JObj [(''headers'', JObj [(''Content-Type'', JStr ''application/json'')]),
             (''method'', JStr ''PUT''),
             (''body'', JStr ''{"id":5,"title":"t","body":"b","userId":1}'')])]\<close>
  using updatePost_5_request [of world_offline "[]"] by simp

text \<open>
  C6. Each wrapper adds exactly one call of \<open>fetch\<close>, on the URL of the table: the base,
  the resource, the identifier where the wrapper takes one, the nested resource or the query.
  The identifier is the argument \<open>v\<close> as the template literal converts it, for every
  argument whose numbers are safe integers, as those of the data are; where that conversion
  throws, the wrapper calls \<open>fetch\<close> not at all. The
  wrappers that read pass no method, which is a \<open>GET\<close>; \<open>createPost\<close>,
  \<open>updatePost\<close>, \<open>patchPost\<close> and \<open>deletePost\<close> pass \<open>POST\<close>, \<open>PUT\<close>,
  \<open>PATCH\<close> and \<open>DELETE\<close>, the first three with the JSON serialization of their data
  as body.
\<close>

theorem wrapper_requests:
  assumes "safe_numbers v" and "safe_numbers postData"
  shows
  "fetches (snd (getAllPosts w s)) = fetches s @ [(API_BASE_URL @ ''/posts'', default_init)]
   \<and> fetches (snd (createPost w postData s))
       = fetches s @ [(API_BASE_URL @ ''/posts'', json_init ''POST'' (JSON_stringify postData))]
   \<and> fetches (snd (getAllComments w s)) = fetches s @ [(API_BASE_URL @ ''/comments'', default_init)]
   \<and> fetches (snd (getAllUsers w s)) = fetches s @ [(API_BASE_URL @ ''/users'', default_init)]
   \<and> fetches (snd (getAllAlbums w s)) = fetches s @ [(API_BASE_URL @ ''/albums'', default_init)]
   \<and> fetches (snd (getAllPhotos w s)) = fetches s @ [(API_BASE_URL @ ''/photos'', default_init)]
   \<and> fetches (snd (getAllTodos w s)) = fetches s @ [(API_BASE_URL @ ''/todos'', default_init)]
   \<and> fetches (snd (getCompletedTodos w s)) = fetches s @ [(API_BASE_URL @ ''/todos'', default_init)]
   \<and> (case to_string v of
         Inl e \<Rightarrow>
           fetches (snd (getPost w v s)) = fetches s
         \<and> fetches (snd (getPostsByUser w v s)) = fetches s
         \<and> fetches (snd (updatePost w v postData s)) = fetches s
         \<and> fetches (snd (patchPost w v postData s)) = fetches s
         \<and> fetches (snd (deletePost w v s)) = fetches s
         \<and> fetches (snd (getCommentsForPost w v s)) = fetches s
         \<and> fetches (snd (getUser w v s)) = fetches s
         \<and> fetches (snd (getUserAlbums w v s)) = fetches s
         \<and> fetches (snd (getUserTodos w v s)) = fetches s
         \<and> fetches (snd (getAlbumPhotos w v s)) = fetches s
       | Inr sv \<Rightarrow>
           fetches (snd (getPost w v s))
             = fetches s @ [(API_BASE_URL @ ''/posts/'' @ sv, default_init)]
         \<and> fetches (snd (getPostsByUser w v s))
             = fetches s @ [(API_BASE_URL @ ''/posts?userId='' @ sv, default_init)]
         \<and> fetches (snd (updatePost w v postData s))
             = fetches s @ [(API_BASE_URL @ ''/posts/'' @ sv,
                 json_init ''PUT'' (JSON_stringify (JObj (spread [(''id'', v)] postData))))]
         \<and> fetches (snd (patchPost w v postData s))
             = fetches s @ [(API_BASE_URL @ ''/posts/'' @ sv,
                 json_init ''PATCH'' (JSON_stringify postData))]
         \<and> fetches (snd (deletePost w v s))
             = fetches s @ [(API_BASE_URL @ ''/posts/'' @ sv,
                 JObj [(''headers'', json_headers), (''method'', JStr ''DELETE'')])]
         \<and> fetches (snd (getCommentsForPost w v s))
             = fetches s @ [(API_BASE_URL @ ''/posts/'' @ sv @ ''/comments'', default_init)]
         \<and> fetches (snd (getUser w v s))
             = fetches s @ [(API_BASE_URL @ ''/users/'' @ sv, default_init)]
         \<and> fetches (snd (getUserAlbums w v s))
             = fetches s @ [(API_BASE_URL @ ''/users/'' @ sv @ ''/albums'', default_init)]
         \<and> fetches (snd (getUserTodos w v s))
             = fetches s @ [(API_BASE_URL @ ''/users/'' @ sv @ ''/todos'', default_init)]
         \<and> fetches (snd (getAlbumPhotos w v s))
             = fetches s @ [(API_BASE_URL @ ''/albums/'' @ sv @ ''/photos'', default_init)])
   \<and> request_method default_init = ''GET''
   \<and> request_method (json_init ''POST'' b) = ''POST''
   \<and> request_method (json_init ''PUT'' b) = ''PUT''
   \<and> request_method (json_init ''PATCH'' b) = ''PATCH''
   \<and> request_method (JObj [(''headers'', json_headers), (''method'', JStr ''DELETE'')]) = ''DELETE''"
proof -
  have methods:
    "request_method default_init = ''GET''"
    "\<And>m. request_method (json_init m b) = m"
    "request_method (JObj [(''headers'', json_headers), (''method'', JStr ''DELETE'')]) = ''DELETE''"
    by (simp_all add: request_method_def default_init_def json_init_def)
  have fixed:
    "fetches (snd (getAllPosts w s)) = fetches s @ [(API_BASE_URL @ ''/posts'', default_init)]
     \<and> fetches (snd (createPost w postData s))
         = fetches s @ [(API_BASE_URL @ ''/posts'', json_init ''POST'' (JSON_stringify postData))]
     \<and> fetches (snd (getAllComments w s)) = fetches s @ [(API_BASE_URL @ ''/comments'', default_init)]
     \<and> fetches (snd (getAllUsers w s)) = fetches s @ [(API_BASE_URL @ ''/users'', default_init)]
     \<and> fetches (snd (getAllAlbums w s)) = fetches s @ [(API_BASE_URL @ ''/albums'', default_init)]
     \<and> fetches (snd (getAllPhotos w s)) = fetches s @ [(API_BASE_URL @ ''/photos'', default_init)]
     \<and> fetches (snd (getAllTodos w s)) = fetches s @ [(API_BASE_URL @ ''/todos'', default_init)]
     \<and> fetches (snd (getCompletedTodos w s)) = fetches s @ [(API_BASE_URL @ ''/todos'', default_init)]"
    by (simp only: getAllPosts_fetches createPost_fetches getAllComments_fetches
          getAllUsers_fetches getAllAlbums_fetches getAllPhotos_fetches getAllTodos_fetches
          getCompletedTodos_fetches simp_thms)
  show ?thesis
  proof (cases "to_string v")
    case (Inl e)
    show ?thesis
      by (simp only: fixed methods Inl sum.case getPost_no_fetch [OF Inl]
            getPostsByUser_no_fetch [OF Inl] updatePost_no_fetch [OF Inl]
            patchPost_no_fetch [OF Inl] deletePost_no_fetch [OF Inl]
            getCommentsForPost_no_fetch [OF Inl] getUser_no_fetch [OF Inl]
            getUserAlbums_no_fetch [OF Inl] getUserTodos_no_fetch [OF Inl]
            getAlbumPhotos_no_fetch [OF Inl] simp_thms)
  next
    case (Inr sv)
    show ?thesis
      by (simp only: fixed methods Inr sum.case getPost_fetches [OF Inr]
            getPostsByUser_fetches [OF Inr] updatePost_fetches [OF Inr]
            patchPost_fetches [OF Inr] deletePost_fetches [OF Inr]
            getCommentsForPost_fetches [OF Inr] getUser_fetches [OF Inr]
            getUserAlbums_fetches [OF Inr] getUserTodos_fetches [OF Inr]
            getAlbumPhotos_fetches [OF Inr] simp_thms)
  qed
qed

theorem wrapper_requests_witness:
  \<open>safe_numbers (JNum 1)
   \<and> safe_numbers (JObj [(''title'', JStr ''t''), (''body'', JStr ''b''), (''userId'', JNum 1)])
   \<and> fetches (snd (getPostsByUser world_ok (JNum 1) []))
       = [(''https://jsonplaceholder.typicode.com/posts?userId=1'',
           JObj [(''headers'', JObj [(''Content-Type'', JStr ''application/json'')])])]
   \<and> request_method (JObj [(''headers'', JObj [(''Content-Type'', JStr ''application/json'')])])
       = ''GET''
   \<and> fetches (snd (createPost world_ok
          (JObj [(''title'', JStr ''t''), (''body'', JStr ''b''), (''userId'', JNum 1)]) []))
       = [(''https://jsonplaceholder.typicode.com/posts'',
           JObj [(''headers'', JObj [(''Content-Type'', JStr ''application/json'')]),
                 (''method'', JStr ''POST''),
                 (''body'', JStr ''{"title":"t","body":"b","userId":1}'')])]
   \<and> fetches (snd (getUser world_ok (JObj [(''toString'', JNum 1)]) [])) = []\<close>
proof -
  have body: \<open>JSON_stringify (JObj [(''title'', JStr ''t''), (''body'', JStr ''b''), (''userId'', JNum 1)])
     = JStr ''{"title":"t","body":"b","userId":1}''\<close>
    by (simp add: JSON_stringify_def json_quote_def json_escape_def show_int_def show_nat.simps
          digit_char_def)
  from wrapper_requests
         [where w = world_ok and s = "[]" and b = JNull and v = "JNum 1"
            and postData = "JObj [(''title'', JStr ''t''), (''body'', JStr ''b''), (''userId'', JNum 1)]"]
       wrapper_requests
         [where w = world_ok and s = "[]" and b = JNull and v = "JObj [(''toString'', JNum 1)]"
            and postData = JNull]
  show ?thesis
    by (simp add: body API_BASE_URL_def default_init_def json_init_def json_headers_def
          show_int_def show_nat.simps digit_char_def safe_integer_def)
qed

text \<open>
  C10. No wrapper passes a \<open>headers\<close> property to \<open>makeRequest\<close>, so whatever its
  arguments and whatever the events so far, every call of \<open>fetch\<close> a wrapper adds has
  \<open>{'Content-Type': 'application/json'}\<close> as the \<open>headers\<close> of its init object.
\<close>

theorem wrappers_send_json_header:
  "sends_json_header (getAllPosts w)
   \<and> sends_json_header (getPost w v)
   \<and> sends_json_header (getPostsByUser w v)
   \<and> sends_json_header (createPost w postData)
   \<and> sends_json_header (updatePost w v postData)
   \<and> sends_json_header (patchPost w v postData)
   \<and> sends_json_header (deletePost w v)
   \<and> sends_json_header (getAllComments w)
   \<and> sends_json_header (getCommentsForPost w v)
   \<and> sends_json_header (getAllUsers w)
   \<and> sends_json_header (getUser w v)
   \<and> sends_json_header (getUserAlbums w v)
   \<and> sends_json_header (getUserTodos w v)
   \<and> sends_json_header (getAllAlbums w)
   \<and> sends_json_header (getAlbumPhotos w v)
   \<and> sends_json_header (getAllPhotos w)
   \<and> sends_json_header (getAllTodos w)
   \<and> sends_json_header (getCompletedTodos w)"
  by (simp only: getAllPosts_sends_json_header getPost_sends_json_header
        getPostsByUser_sends_json_header createPost_sends_json_header
        updatePost_sends_json_header patchPost_sends_json_header deletePost_sends_json_header
        getAllComments_sends_json_header getCommentsForPost_sends_json_header
        getAllUsers_sends_json_header getUser_sends_json_header getUserAlbums_sends_json_header
        getUserTodos_sends_json_header getAllAlbums_sends_json_header
        getAlbumPhotos_sends_json_header getAllPhotos_sends_json_header
        getAllTodos_sends_json_header getCompletedTodos_sends_json_header simp_thms)

theorem wrappers_send_json_header_witness:
  "fetches (snd (deletePost world_ok (JNum 7) [])) \<noteq> []
   \<and> get_member (snd (hd (fetches (snd (deletePost world_ok (JNum 7) []))))) ''headers''
       = Inr (JObj [(''Content-Type'', JStr ''application/json'')])"
proof -
  have shown: "to_string (JNum 7) = Inr ''7''"
    by (simp add: show_int_def show_nat.simps digit_char_def)
  have one: "fetches (snd (deletePost world_ok (JNum 7) []))
      = [(API_BASE_URL @ ''/posts/7'', JObj [(''headers'', json_headers), (''method'', JStr ''DELETE'')])]"
    using deletePost_fetches [OF shown, of world_ok "[]"] by simp
  from wrappers_send_json_header [of world_ok "JNum 7" JNull]
  have "sends_json_header (deletePost world_ok (JNum 7))"
    by simp
  then obtain reqs where
    "fetches (snd (deletePost world_ok (JNum 7) [])) = fetches [] @ reqs"
    "\<forall>r \<in> set reqs. get_member (snd r) ''headers'' = Inr json_headers"
    unfolding sends_json_header_def by blast
  with one show ?thesis
    by (simp add: json_headers_def)
qed




section \<open>The completed todos\<close>

text \<open>
  C4. When the request for \<open>/todos\<close> is answered with a list of todo objects, each with a
  boolean \<open>completed\<close>, \<open>getAllTodos\<close> returns the list and \<open>getCompletedTodos\<close>, for
  the same answer, returns the elements of the list whose \<open>completed\<close> is \<open>true\<close>, in
  their order, and no other.
\<close>

theorem getCompletedTodos_is_filter:
  assumes "w (length (fetches s)) (API_BASE_URL @ ''/todos'') default_init = Responds r"
    and "response_ok r" and "status r \<noteq> 204"
    and "json_result r = Inr (JArr todos)"
    and "\<forall>t \<in> set todos. \<exists>ps b. t = JObj ps \<and> map_of ps ''completed'' = Some (JBool b)"
  shows "fst (getAllTodos w s) = Inr (JArr todos)
       \<and> fst (getCompletedTodos w s) =
           Inr (JArr (filter (\<lambda>t. get_member t ''completed'' = Inr (JBool True)) todos))"
proof -
  have req: "\<And>msg. makeRequest w (API_BASE_URL @ ''/todos'') JUndefined (s @ [ConsoleLog msg])
      = (Inr (JArr todos),
         s @ [ConsoleLog msg, Fetch (API_BASE_URL @ ''/todos'') default_init, ResponseJson])"
    using assms(1-4)
    by (subst makeRequest_json [where r = r and v = "JArr todos"])
       (simp_all add: sent_init_undefined fetches_append)
  have bnd: "\<And>msg f. bindM (makeRequest w (API_BASE_URL @ ''/todos'') JUndefined) f
                        (s @ [ConsoleLog msg])
      = f (JArr todos)
          (s @ [ConsoleLog msg, Fetch (API_BASE_URL @ ''/todos'') default_init, ResponseJson])"
    by (simp add: bindM_def req)
  have all: "fst (getAllTodos w s) = Inr (JArr todos)"
    unfolding getAllTodos_def
    by (simp add: bindM_console_log bnd bindM_member bindM_interp returnM_def)
  have "fst (getCompletedTodos w s)
      = Inr (JArr (filter (\<lambda>t. get_member t ''completed'' = Inr (JBool True)) todos))"
    unfolding getCompletedTodos_def
    by (simp add: bindM_console_log bnd filter_completed_flags [OF assms(5)] bindM_lift
          bindM_member bindM_interp returnM_def)
  with all show ?thesis by simp
qed

theorem getCompletedTodos_is_filter_witness:
  "fst (getAllTodos world_todos []) = Inr (JArr three_todos)
   \<and> fst (getCompletedTodos world_todos [])
       = Inr (JArr [JObj [(''id'', JNum 1), (''title'', JStr ''a''), (''completed'', JBool True)],
                    JObj [(''id'', JNum 3), (''title'', JStr ''c''), (''completed'', JBool True)]])"
proof -
  have answer: "world_todos (length (fetches [])) (API_BASE_URL @ ''/todos'') default_init
      = Responds \<lparr>status = 200, json_result = Inr (JArr three_todos)\<rparr>"
    by (simp add: world_todos_def)
  have flags: "\<forall>t \<in> set three_todos. \<exists>ps b. t = JObj ps \<and> map_of ps ''completed'' = Some (JBool b)"
    by (auto simp: three_todos_def)
  have "fst (getAllTodos world_todos []) = Inr (JArr three_todos)
      \<and> fst (getCompletedTodos world_todos []) =
          Inr (JArr (filter (\<lambda>t. get_member t ''completed'' = Inr (JBool True)) three_todos))"
    by (rule getCompletedTodos_is_filter
               [where w = world_todos and s = "[]", OF answer _ _ _ flags])
       (simp_all add: response_ok_def)
  then show ?thesis
    by (simp add: three_todos_def)
qed

section \<open>The demo drivers: a failure ends the run\<close>

text \<open>
  C7. Both drivers, step by step in the order of the source. A wrapper call that fails, on
  the events so far, ends the run: the driver's events are those up to the end of the failing
  call followed by the one line on \<open>console.error\<close> with the driver's label and the
  error, so no wrapper after it is called, and the driver's promise is fulfilled with
  \<open>undefined\<close>. The same holds for the steps between the calls that can throw. When a
  call succeeds, the next step starts from its events and the progress lines printed in
  between. Nothing is said here of a run in which every step shown succeeds.
\<close>

theorem drivers_stop_at_first_failure:
  \<open>
   (case getPost w (JNum 1) (s @ [ConsoleLog (''Running Quick Test...'' @ [CHR 0x0A])]) of
      (Inl e, t) \<Rightarrow> quickTest w s = (Inr JUndefined, t @ [ConsoleError ''Quick test failed:'' e])
    | (Inr post, t1) \<Rightarrow>
      (case createPost w quick_post (t1 @ [ConsoleLog ''GET request successful'']) of
         (Inl e, t) \<Rightarrow> quickTest w s = (Inr JUndefined, t @ [ConsoleError ''Quick test failed:'' e])
       | (Inr newPost, t2) \<Rightarrow>
         (case getPostsByUser w (JNum 1) (t2 @ [ConsoleLog ''POST request successful'']) of
            (Inl e, t) \<Rightarrow> quickTest w s = (Inr JUndefined, t @ [ConsoleError ''Quick test failed:'' e])
          | (Inr userPosts, t3) \<Rightarrow>
            (case getCommentsForPost w (JNum 1) (t3 @ [ConsoleLog ''Query parameters working'']) of
               (Inl e, t) \<Rightarrow> quickTest w s = (Inr JUndefined, t @ [ConsoleError ''Quick test failed:'' e])
             | (Inr comments, t4) \<Rightarrow>
               True))))
   \<and>
   (case getPost w (JNum 1) (s @ [ConsoleLog ''Starting JSONPlaceholder API Demo'',
               ConsoleLog (replicate 37 CHR ''='' @ [CHR 0x0A]),
               ConsoleLog ''1 POSTS DEMO'', ConsoleLog (dashes 20)]) of
      (Inl e, t) \<Rightarrow> runFullDemo w s = (Inr JUndefined, t @ [ConsoleError ''Demo failed:'' e])
    | (Inr post1, t1) \<Rightarrow>
      (case getPostsByUser w (JNum 1) (t1) of
         (Inl e, t) \<Rightarrow> runFullDemo w s = (Inr JUndefined, t @ [ConsoleError ''Demo failed:'' e])
       | (Inr userPosts, t2) \<Rightarrow>
         (case createPost w demo_post (t2) of
            (Inl e, t) \<Rightarrow> runFullDemo w s = (Inr JUndefined, t @ [ConsoleError ''Demo failed:'' e])
          | (Inr newPost, t3) \<Rightarrow>
            (case get_member newPost ''id'' of
               Inl e \<Rightarrow> runFullDemo w s = (Inr JUndefined, t3 @ [ConsoleError ''Demo failed:'' e])
             | Inr newId \<Rightarrow>
               (case updatePost w newId demo_update (t3) of
                  (Inl e, t) \<Rightarrow> runFullDemo w s = (Inr JUndefined, t @ [ConsoleError ''Demo failed:'' e])
                | (Inr updatedPost, t5) \<Rightarrow>
                  (case patchPost w newId demo_patch (t5) of
                     (Inl e, t) \<Rightarrow> runFullDemo w s = (Inr JUndefined, t @ [ConsoleError ''Demo failed:'' e])
                   | (Inr patchedPost, t6) \<Rightarrow>
                     (case getCommentsForPost w (JNum 1) (t6 @ [ConsoleLog [CHR 0x0A], ConsoleLog ''2 COMMENTS DEMO'', ConsoleLog (dashes 20)]) of
                        (Inl e, t) \<Rightarrow> runFullDemo w s = (Inr JUndefined, t @ [ConsoleError ''Demo failed:'' e])
                      | (Inr comments, t7) \<Rightarrow>
                        (case first_comment_excerpt comments of
                           Inl e \<Rightarrow> runFullDemo w s = (Inr JUndefined, t7 @ [ConsoleError ''Demo failed:'' e])
                         | Inr excerpt \<Rightarrow>
                           (case to_string excerpt of
                              Inl e \<Rightarrow> runFullDemo w s = (Inr JUndefined, t7 @ [ConsoleError ''Demo failed:'' e])
                            | Inr shown \<Rightarrow>
                              (case getAllUsers w (t7 @ [ConsoleLog ''First comment: "${comments[0]?.body.substring(0, 50)}..."'', ConsoleLog [CHR 0x0A], ConsoleLog ''3 USERS DEMO'', ConsoleLog (dashes 20)]) of
                                 (Inl e, t) \<Rightarrow> runFullDemo w s = (Inr JUndefined, t @ [ConsoleError ''Demo failed:'' e])
                               | (Inr users, t10) \<Rightarrow>
                                 (case getUser w (JNum 1) (t10) of
                                    (Inl e, t) \<Rightarrow> runFullDemo w s = (Inr JUndefined, t @ [ConsoleError ''Demo failed:'' e])
                                  | (Inr user1, t11) \<Rightarrow>
                                    (case getUserAlbums w (JNum 1) (t11) of
                                       (Inl e, t) \<Rightarrow> runFullDemo w s = (Inr JUndefined, t @ [ConsoleError ''Demo failed:'' e])
                                     | (Inr user1Albums, t12) \<Rightarrow>
                                       (case getUserTodos w (JNum 1) (t12) of
                                          (Inl e, t) \<Rightarrow> runFullDemo w s = (Inr JUndefined, t @ [ConsoleError ''Demo failed:'' e])
                                        | (Inr user1Todos, t13) \<Rightarrow>
                                          (case getAllAlbums w (t13 @ [ConsoleLog [CHR 0x0A], ConsoleLog ''4 ALBUMS & PHOTOS DEMO'', ConsoleLog (dashes 25)]) of
                                             (Inl e, t) \<Rightarrow> runFullDemo w s = (Inr JUndefined, t @ [ConsoleError ''Demo failed:'' e])
                                           | (Inr albums, t14) \<Rightarrow>
                                             (case getAlbumPhotos w (JNum 1) (t14) of
                                                (Inl e, t) \<Rightarrow> runFullDemo w s = (Inr JUndefined, t @ [ConsoleError ''Demo failed:'' e])
                                              | (Inr album1Photos, t15) \<Rightarrow>
                                                (case sample_photo_title album1Photos of
                                                   Inl e \<Rightarrow> runFullDemo w s = (Inr JUndefined, t15 @ [ConsoleError ''Demo failed:'' e])
                                                 | Inr title \<Rightarrow>
                                                   (case to_string title of
                                                      Inl e \<Rightarrow> runFullDemo w s = (Inr JUndefined, t15 @ [ConsoleError ''Demo failed:'' e])
                                                    | Inr shown \<Rightarrow>
                                                      (case getAllTodos w (t15 @ [ConsoleLog ''Sample photo: ${album1Photos[0]?.title}'', ConsoleLog [CHR 0x0A], ConsoleLog ''5 TODOS DEMO'', ConsoleLog (dashes 15)]) of
                                                         (Inl e, t) \<Rightarrow> runFullDemo w s = (Inr JUndefined, t @ [ConsoleError ''Demo failed:'' e])
                                                       | (Inr todos, t18) \<Rightarrow>
                                                         (case getCompletedTodos w (t18) of
                                                            (Inl e, t) \<Rightarrow> runFullDemo w s = (Inr JUndefined, t @ [ConsoleError ''Demo failed:'' e])
                                                          | (Inr completedTodos, t19) \<Rightarrow>
                                                            True)))))))))))))))))))\<close>
  apply (rule conjI)
   apply (rule case_callI)
    apply (simp add: quick_unfold)
   apply (rule case_callI)
    apply (simp add: quick_unfold)
   apply (rule case_callI)
    apply (simp add: quick_unfold)
   apply (rule case_callI)
    apply (simp add: quick_unfold)
   apply (rule TrueI)
  apply (rule case_callI)
   apply (simp add: demo_unfold)
  apply (rule case_callI)
   apply (simp add: demo_unfold)
  apply (rule case_callI)
   apply (simp add: demo_unfold)
  apply (rule case_pureI)
   apply (simp add: demo_unfold)
  apply (rule case_callI)
   apply (simp add: demo_unfold)
  apply (rule case_callI)
   apply (simp add: demo_unfold)
  apply (rule case_callI)
   apply (simp add: demo_unfold)
  apply (rule case_pureI)
   apply (simp add: demo_unfold)
  apply (rule case_pureI)
   apply (simp add: demo_unfold)
  apply (rule case_callI)
   apply (simp add: demo_unfold)
  apply (rule case_callI)
   apply (simp add: demo_unfold)
  apply (rule case_callI)
   apply (simp add: demo_unfold)
  apply (rule case_callI)
   apply (simp add: demo_unfold)
  apply (rule case_callI)
   apply (simp add: demo_unfold)
  apply (rule case_callI)
   apply (simp add: demo_unfold)
  apply (rule case_pureI)
   apply (simp add: demo_unfold)
  apply (rule case_pureI)
   apply (simp add: demo_unfold)
  apply (rule case_callI)
   apply (simp add: demo_unfold)
  apply (rule case_callI)
   apply (simp add: demo_unfold)
  apply (rule TrueI)
  done

theorem drivers_stop_at_first_failure_witness:
  \<open>quickTest world_second_fails [] =
     (Inr JUndefined,
      [ConsoleLog (''Running Quick Test...'' @ [CHR 0x0A]),
       ConsoleLog ''Fetching post ${id}...'',
       Fetch ''https://jsonplaceholder.typicode.com/posts/1''
         (JObj [(''headers'', JObj [(''Content-Type'', JStr ''application/json'')])]),
       ResponseJson,
       ConsoleLog ''Retrieved post: "${post.title}"'',
       ConsoleLog ''GET request successful'',
       ConsoleLog ''Creating new post...'',
       Fetch ''https://jsonplaceholder.typicode.com/posts''
         (JObj [(''headers'', JObj [(''Content-Type'', JStr ''application/json'')]),
                (''method'', JStr ''POST''),
                (''body'', JStr ''{"title":"Quick Test Post","body":"Testing POST request","userId":99}'')]),
       ConsoleError ''API Request failed:'' (Error ''HTTP error! status: 500''),
       ConsoleError ''Quick test failed:'' (Error ''HTTP error! status: 500'')])
   \<and> runFullDemo world_second_fails [] =
     (Inr JUndefined,
      [ConsoleLog ''Starting JSONPlaceholder API Demo'',
       ConsoleLog (replicate 37 CHR ''='' @ [CHR 0x0A]),
       ConsoleLog ''1 POSTS DEMO'',
       ConsoleLog (dashes 20),
       ConsoleLog ''Fetching post ${id}...'',
       Fetch ''https://jsonplaceholder.typicode.com/posts/1''
         (JObj [(''headers'', JObj [(''Content-Type'', JStr ''application/json'')])]),
       ResponseJson,
       ConsoleLog ''Retrieved post: "${post.title}"'',
       ConsoleLog ''Fetching posts by user ${userId}...'',
       Fetch ''https://jsonplaceholder.typicode.com/posts?userId=1''
         (JObj [(''headers'', JObj [(''Content-Type'', JStr ''application/json'')])]),
       ConsoleError ''API Request failed:'' (Error ''HTTP error! status: 500''),
       ConsoleError ''Demo failed:'' (Error ''HTTP error! status: 500'')])\<close>
  using drivers_stop_at_first_failure [of world_second_fails "[]"]
  by (simp add: getPost_def createPost_def getPostsByUser_def quick_post_def
        world_second_fails_def eval_simps)

section \<open>The demo drivers: the promise is always fulfilled\<close>

text \<open>
  C9. Whatever the service does, the promises of \<open>runFullDemo\<close> and \<open>quickTest\<close> are
  fulfilled (with \<open>undefined\<close>) and never rejected; when the body of the \<open>try\<close> throws,
  the error goes to \<open>console.error\<close> under the driver's label as the last event and is not
  thrown again. Every promise the drivers await is taken to settle.
\<close>

theorem drivers_never_reject:
  "fst (runFullDemo w s) = Inr JUndefined
   \<and> fst (quickTest w s) = Inr JUndefined
   \<and> (\<forall>e t. runFullDemo_try w
                 (s @ [ConsoleLog ''Starting JSONPlaceholder API Demo'',
                       ConsoleLog (replicate 37 CHR ''='' @ [CHR 0x0A])]) = (Inl e, t)
          \<longrightarrow> runFullDemo w s = (Inr JUndefined, t @ [ConsoleError ''Demo failed:'' e]))
   \<and> (\<forall>e t. quickTest_try w (s @ [ConsoleLog (''Running Quick Test...'' @ [CHR 0x0A])]) = (Inl e, t)
          \<longrightarrow> quickTest w s = (Inr JUndefined, t @ [ConsoleError ''Quick test failed:'' e]))"
  by (simp add: runFullDemo_guarded quickTest_guarded run_guarded_resolves run_guarded_caught)

theorem drivers_never_reject_witness:
  "fst (runFullDemo world_offline []) = Inr JUndefined
   \<and> quickTest world_offline [] =
       (Inr JUndefined,
        [ConsoleLog (''Running Quick Test...'' @ [CHR 0x0A]),
         ConsoleLog ''Fetching post ${id}...'',
         Fetch ''https://jsonplaceholder.typicode.com/posts/1''
           (JObj [(''headers'', JObj [(''Content-Type'', JStr ''application/json'')])]),
         ConsoleError ''API Request failed:'' (Rejection ''offline''),
         ConsoleError ''Quick test failed:'' (Rejection ''offline'')])"
proof -
  have body: "quickTest_try world_offline [ConsoleLog (''Running Quick Test...'' @ [CHR 0x0A])] =
      (Inl (Rejection ''offline''),
       [ConsoleLog (''Running Quick Test...'' @ [CHR 0x0A]),
        ConsoleLog ''Fetching post ${id}...'',
        Fetch ''https://jsonplaceholder.typicode.com/posts/1''
          (JObj [(''headers'', JObj [(''Content-Type'', JStr ''application/json'')])]),
        ConsoleError ''API Request failed:'' (Rejection ''offline'')])"
    by (simp add: quickTest_try_def getPost_def world_offline_def eval_simps)
  from drivers_never_reject [of world_offline "[]"] body show ?thesis
    by simp
qed

end
